theory Spec2Isabelle
  imports Main
begin

section \<open>JavaScript values, strings and errors\<close>

text \<open>
  The credential and session subsystem of the application is written in JavaScript.
  Strings are modelled as \<^typ>\<open>string\<close>; a character stands for one UTF-16 code unit
  below 256 (the Latin-1 range), which covers every character class the password rules
  and the token code distinguish.  Arguments whose run-time type the source inspects
  (\<open>!password\<close>, \<open>typeof password !== 'string'\<close>) are values of \<open>js_value\<close>.
\<close>

datatype js_value =
    JUndefined
  | JNull
  | JBool bool
  | JNum int
  | JNaN
  | JStr string
  | JObject

fun truthy :: "js_value \<Rightarrow> bool" where
  "truthy JUndefined = False"
| "truthy JNull = False"
| "truthy (JBool b) = b"
| "truthy (JNum n) = (n \<noteq> 0)"
| "truthy JNaN = False"
| "truthy (JStr s) = (s \<noteq> [])"
| "truthy JObject = True"

fun is_string :: "js_value \<Rightarrow> bool" where
  "is_string (JStr s) = True"
| "is_string v = False"

text \<open>
  A thrown error object: its \<open>name\<close> and \<open>message\<close>, and the properties the service
  layer reads or attaches (\<open>code\<close>, the \<open>errors\<close> of a schema validation error as
  pairs of path and message, \<open>validationErrors\<close>, \<open>details\<close>, and name and message of
  the \<open>originalError\<close>).
\<close>

record js_error =
  e_name :: string
  e_message :: string
  e_code :: js_value
  e_errors :: "(string \<times> string) list"
  e_validationErrors :: "string list option"
  e_details :: "(string \<times> string) list option"
  e_originalError :: "(string \<times> string) option"

definition named_error :: "string \<Rightarrow> string \<Rightarrow> js_error" where
  "named_error n msg =
     \<lparr>e_name = n, e_message = msg, e_code = JUndefined, e_errors = [],
      e_validationErrors = None, e_details = None, e_originalError = None\<rparr>"

definition Error :: "string \<Rightarrow> js_error" where
  "Error msg = named_error ''Error'' msg"

text \<open>\<open>String.prototype.startsWith\<close>, \<open>includes\<close>, \<open>toLowerCase\<close>, \<open>trim\<close> and
  \<open>split(sep)[0]\<close>.\<close>

definition startsWith :: "string \<Rightarrow> string \<Rightarrow> bool" where
  "startsWith s p = (take (length p) s = p)"

fun js_includes :: "string \<Rightarrow> string \<Rightarrow> bool" where
  "js_includes [] needle = (needle = [])"
| "js_includes (c # cs) needle = (startsWith (c # cs) needle \<or> js_includes cs needle)"

definition toLowerCase_char :: "char \<Rightarrow> char" where
  "toLowerCase_char c =
     (let n = (of_char c :: nat)
      in if (65 \<le> n \<and> n \<le> 90) \<or> (192 \<le> n \<and> n \<le> 222 \<and> n \<noteq> 215)
         then char_of (n + 32) else c)"

definition toLowerCase :: "string \<Rightarrow> string" where
  "toLowerCase s = map toLowerCase_char s"

definition is_white_space :: "char \<Rightarrow> bool" where
  "is_white_space c = ((of_char c :: nat) \<in> {9, 10, 11, 12, 13, 32, 160})"

definition trim :: "string \<Rightarrow> string" where
  "trim s = rev (dropWhile is_white_space (rev (dropWhile is_white_space s)))"

definition split_first :: "char \<Rightarrow> string \<Rightarrow> string" where
  "split_first sep s = takeWhile (\<lambda>c. c \<noteq> sep) s"

section \<open>Password service\<close>

subsection \<open>Character classes of the regular expressions\<close>

definition upper_class :: string where
  "upper_class = ''ABCDEFGHIJKLMNOPQRSTUVWXYZ''"

definition lower_class :: string where
  "lower_class = ''abcdefghijklmnopqrstuvwxyz''"

definition digit_class :: string where
  "digit_class = ''0123456789''"

text \<open>The class \<open>[!@#$%^&*(),.?":{}|<>]\<close>; the double quote is character \<open>0x22\<close>.\<close>

definition special_class :: string where
  "special_class = ''!@#$%^&*(),.?'' @ [CHR 0x22] @ '':{}|<>''"

definition test_class :: "string \<Rightarrow> string \<Rightarrow> bool" where
  "test_class cls s = list_ex (\<lambda>c. c \<in> set cls) s"

text \<open>\<open>/(.)\1{3,}/\<close>: four consecutive identical characters; the dot does not match a
  line terminator.\<close>

definition is_line_terminator :: "char \<Rightarrow> bool" where
  "is_line_terminator c = ((of_char c :: nat) \<in> {10, 13})"

fun repeated4 :: "string \<Rightarrow> bool" where
  "repeated4 (a # b # c # d # rest) =
     ((a = b \<and> b = c \<and> c = d \<and> \<not> is_line_terminator a) \<or> repeated4 (b # c # d # rest))"
| "repeated4 s = False"

text \<open>\<open>/123456|654321|password|qwerty/i\<close>: the flag \<open>i\<close> identifies each ASCII letter
  of the pattern with its other case and with no further character.\<close>

definition ascii_lower_char :: "char \<Rightarrow> char" where
  "ascii_lower_char c =
     (let n = (of_char c :: nat) in if 65 \<le> n \<and> n \<le> 90 then char_of (n + 32) else c)"

definition common_weak :: "string \<Rightarrow> bool" where
  "common_weak s =
     (let l = map ascii_lower_char s
      in js_includes l ''123456'' \<or> js_includes l ''654321'' \<or> js_includes l ''password''
         \<or> js_includes l ''qwerty'')"

text \<open>The loop over \<open>forbiddenPatterns\<close> pushes one error at the first match and breaks.\<close>

definition forbidden :: "string \<Rightarrow> bool" where
  "forbidden s = (repeated4 s \<or> common_weak s)"

subsection \<open>Strength validation\<close>

definition minPasswordLength :: nat where "minPasswordLength = 8"
definition maxPasswordLength :: nat where "maxPasswordLength = 128"
definition minLength :: nat where "minLength = 8"
definition maxLength :: nat where "maxLength = 128"
definition requireUppercase :: bool where "requireUppercase = True"
definition requireLowercase :: bool where "requireLowercase = True"
definition requireNumbers :: bool where "requireNumbers = True"
definition requireSpecialChars :: bool where "requireSpecialChars = False"

record strength_result =
  isValid :: bool
  score :: int
  errors :: "string list"
  warnings :: "string list"
  suggestions :: "string list"

record user_info =
  ui_email :: "string option"
  ui_firstName :: "string option"
  ui_lastName :: "string option"

definition no_user_info :: user_info where
  "no_user_info = \<lparr>ui_email = None, ui_firstName = None, ui_lastName = None\<rparr>"

definition initial_result :: strength_result where
  "initial_result = \<lparr>isValid = False, score = 0, errors = [], warnings = [], suggestions = []\<rparr>"

definition push_error :: "string \<Rightarrow> strength_result \<Rightarrow> strength_result" where
  "push_error m r = r\<lparr>errors := errors r @ [m]\<rparr>"

definition push_warning :: "string \<Rightarrow> strength_result \<Rightarrow> strength_result" where
  "push_warning m r = r\<lparr>warnings := warnings r @ [m]\<rparr>"

definition push_suggestion :: "string \<Rightarrow> strength_result \<Rightarrow> strength_result" where
  "push_suggestion m r = r\<lparr>suggestions := suggestions r @ [m]\<rparr>"

definition add_score :: "int \<Rightarrow> strength_result \<Rightarrow> strength_result" where
  "add_score n r = r\<lparr>score := score r + n\<rparr>"

definition length_rules :: "string \<Rightarrow> strength_result \<Rightarrow> strength_result" where
  "length_rules password r =
     (let r1 = (if length password < minLength
                then push_error ''Password must be at least 8 characters long'' r
                else if length password \<ge> minLength then add_score 20 r else r)
      in if length password > maxLength
         then push_error ''Password must not exceed 128 characters'' r1 else r1)"

definition class_rule ::
  "bool \<Rightarrow> string \<Rightarrow> string \<Rightarrow> int \<Rightarrow> string \<Rightarrow> strength_result \<Rightarrow> strength_result" where
  "class_rule required cls msg pts password r =
     (if required \<and> \<not> test_class cls password then push_error msg r
      else if test_class cls password then add_score pts r else r)"

definition character_rules :: "string \<Rightarrow> strength_result \<Rightarrow> strength_result" where
  "character_rules password r =
     (let r1 = class_rule requireUppercase upper_class
                 ''Password must contain at least one uppercase letter'' 15 password r;
          r2 = class_rule requireLowercase lower_class
                 ''Password must contain at least one lowercase letter'' 15 password r1;
          r3 = class_rule requireNumbers digit_class
                 ''Password must contain at least one number'' 15 password r2
      in class_rule requireSpecialChars special_class
           ''Password must contain at least one special character'' 10 password r3)"

definition pattern_rule :: "string \<Rightarrow> strength_result \<Rightarrow> strength_result" where
  "pattern_rule password r =
     (if forbidden password
      then push_error ''Password contains forbidden patterns or is too common'' r else r)"

definition email_penalty :: "string \<Rightarrow> user_info \<Rightarrow> bool" where
  "email_penalty password u =
     (case ui_email u of None \<Rightarrow> False
      | Some e \<Rightarrow> e \<noteq> [] \<and>
          js_includes (toLowerCase password) (toLowerCase (split_first (CHR ''@'') e)))"

definition name_penalty :: "string \<Rightarrow> string option \<Rightarrow> bool" where
  "name_penalty password n =
     (case n of None \<Rightarrow> False
      | Some s \<Rightarrow> s \<noteq> [] \<and> js_includes (toLowerCase password) (toLowerCase s))"

definition context_rules :: "string \<Rightarrow> user_info \<Rightarrow> strength_result \<Rightarrow> strength_result" where
  "context_rules password u r =
     (let r1 = (if email_penalty password u
                then add_score (- 10)
                       (push_warning ''Password should not contain parts of your email address'' r)
                else r);
          r2 = (if name_penalty password (ui_firstName u)
                then add_score (- 5)
                       (push_warning ''Password should not contain your first name'' r1)
                else r1)
      in if name_penalty password (ui_lastName u)
         then add_score (- 5) (push_warning ''Password should not contain your last name'' r2)
         else r2)"

definition length_bonus :: "string \<Rightarrow> strength_result \<Rightarrow> strength_result" where
  "length_bonus password r =
     (let r1 = (if length password \<ge> 12 then add_score 10 r else r)
      in if length password \<ge> 16 then add_score 10 r1 else r1)"

text \<open>\<open>new Set(password).size >= password.length * 0.7\<close>.  The product is the double
  nearest to seven tenths of an integer, which lies strictly between the integer below
  and the integer at or above seven tenths of the length, so the comparison with the
  integer \<open>uniqueChars\<close> is the one below.\<close>

definition diversity_bonus :: "string \<Rightarrow> strength_result \<Rightarrow> strength_result" where
  "diversity_bonus password r =
     (let uniqueChars = length (remdups password)
      in if 10 * uniqueChars \<ge> 7 * length password then add_score 5 r else r)"

definition clamp_score :: "strength_result \<Rightarrow> strength_result" where
  "clamp_score r = r\<lparr>score := max 0 (min 100 (score r))\<rparr>"

definition decide_validity :: "strength_result \<Rightarrow> strength_result" where
  "decide_validity r = r\<lparr>isValid := (errors r = [] \<and> score r \<ge> 60)\<rparr>"

definition make_suggestions :: "string \<Rightarrow> strength_result \<Rightarrow> strength_result" where
  "make_suggestions password r =
     (let r1 = (if score r < 60
                then push_suggestion
                       ''Consider using a longer password with mixed character types'' r
                else r);
          r2 = (if \<not> test_class special_class password
                then push_suggestion
                       ''Adding special characters can improve password strength'' r1
                else r1)
      in if length password < 12
         then push_suggestion ''Passwords of 12+ characters are more secure'' r2 else r2)"

definition validate_string :: "string \<Rightarrow> user_info \<Rightarrow> strength_result" where
  "validate_string password u =
     make_suggestions password
       (decide_validity
         (clamp_score
           (diversity_bonus password
             (length_bonus password
               (context_rules password u
                 (pattern_rule password
                   (character_rules password
                     (length_rules password initial_result))))))))"

definition validatePasswordStrength :: "js_value \<Rightarrow> user_info \<Rightarrow> strength_result" where
  "validatePasswordStrength password u =
     (if \<not> truthy password then push_error ''Password is required'' initial_result
      else case password of
             JStr s \<Rightarrow> validate_string s u
           | _ \<Rightarrow> push_error ''Password must be a string'' initial_result)"

subsection \<open>Password verification\<close>

text \<open>
  \<open>bcrypt.compare\<close> belongs to the hashing library and is a parameter: it returns a
  boolean or rejects with an error (\<open>Inl\<close>), for instance on arguments that are not
  strings.  Both verification functions of the repository wrap the call in
  \<open>try\<close>/\<open>catch\<close>; a result \<open>Inl e\<close> of the model would be an exception leaving the
  function.
\<close>

type_synonym bcrypt_compare = "js_value \<Rightarrow> js_value \<Rightarrow> js_error + bool"

definition try_catch :: "(js_error + 'a) \<Rightarrow> (js_error \<Rightarrow> js_error + 'a) \<Rightarrow> js_error + 'a" where
  "try_catch body handler = (case body of Inl e \<Rightarrow> handler e | Inr v \<Rightarrow> Inr v)"

text \<open>\<open>PasswordService.verifyPassword(password, hash)\<close>.\<close>

definition verifyPassword :: "bcrypt_compare \<Rightarrow> js_value \<Rightarrow> js_value \<Rightarrow> js_error + bool" where
  "verifyPassword compare password hash =
     try_catch
       (if \<not> truthy password \<or> \<not> truthy hash then Inr False
        else if \<not> is_string password \<or> \<not> is_string hash then Inr False
        else compare password hash)
       (\<lambda>error. Inr False)"

text \<open>The instance method \<open>verifyPassword(candidatePassword)\<close> of the user and admin
  schemas, applied to the stored \<open>passwordHash\<close>.\<close>

definition model_verifyPassword :: "bcrypt_compare \<Rightarrow> js_value \<Rightarrow> js_value \<Rightarrow> js_error + bool" where
  "model_verifyPassword compare passwordHash candidatePassword =
     (if \<not> truthy candidatePassword \<or> \<not> truthy passwordHash then Inr False
      else try_catch (compare candidatePassword passwordHash) (\<lambda>error. Inr False))"

subsection \<open>Secure password generation\<close>

text \<open>
  \<open>crypto.randomInt(n)\<close> draws from \<open>{0..<n}\<close>.  The random outcomes of one run are a
  tape: the \<open>k\<close>-th call returns entry \<open>k\<close> of the tape reduced modulo \<open>n\<close>, so every
  tape is a possible run and every run is described by some tape.
\<close>

type_synonym tape = "nat \<Rightarrow> nat"

definition randomInt :: "tape \<Rightarrow> nat \<Rightarrow> nat \<Rightarrow> nat" where
  "randomInt t k n = t k mod n"

record gen_options =
  opt_length :: nat
  includeUppercase :: bool
  includeLowercase :: bool
  includeNumbers :: bool
  includeSpecialChars :: bool
  excludeSimilar :: bool
  customCharset :: "string option"

definition default_options :: gen_options where
  "default_options =
     \<lparr>opt_length = 16, includeUppercase = True, includeLowercase = True,
      includeNumbers = True, includeSpecialChars = True, excludeSimilar = True,
      customCharset = None\<rparr>"

definition lowerChars :: "bool \<Rightarrow> string" where
  "lowerChars similar_excluded =
     (if similar_excluded then ''abcdefghjkmnpqrstuvwxyz'' else ''abcdefghijklmnopqrstuvwxyz'')"

definition upperChars :: "bool \<Rightarrow> string" where
  "upperChars similar_excluded =
     (if similar_excluded then ''ABCDEFGHJKMNPQRSTUVWXYZ'' else ''ABCDEFGHIJKLMNOPQRSTUVWXYZ'')"

definition numberChars :: "bool \<Rightarrow> string" where
  "numberChars similar_excluded = (if similar_excluded then ''23456789'' else ''0123456789'')"

definition specialChars :: "bool \<Rightarrow> string" where
  "specialChars similar_excluded =
     (if similar_excluded then ''!@#$%^&*()_+-=[]{}|;:,.<>?'' else ''!@#$%^&*()_+-=[]{}|;:,.<>?'')"

definition class_charset :: "gen_options \<Rightarrow> string" where
  "class_charset opts =
       (if includeLowercase opts then lowerChars (excludeSimilar opts) else [])
     @ (if includeUppercase opts then upperChars (excludeSimilar opts) else [])
     @ (if includeNumbers opts then numberChars (excludeSimilar opts) else [])
     @ (if includeSpecialChars opts then specialChars (excludeSimilar opts) else [])"

text \<open>\<open>if (customCharset)\<close>: \<open>null\<close> and the empty string are falsy.\<close>

definition build_charset :: "gen_options \<Rightarrow> string" where
  "build_charset opts =
     (case customCharset opts of
        None \<Rightarrow> class_charset opts
      | Some cs \<Rightarrow> if cs \<noteq> [] then cs else class_charset opts)"

text \<open>The array under construction together with the number of draws made so far.\<close>

type_synonym gen_state = "string \<times> nat"

definition push_random :: "tape \<Rightarrow> string \<Rightarrow> gen_state \<Rightarrow> gen_state" where
  "push_random t cs st = (fst st @ [cs ! randomInt t (snd st) (length cs)], Suc (snd st))"

definition required_chars :: "tape \<Rightarrow> gen_options \<Rightarrow> gen_state" where
  "required_chars t opts =
     (let s1 = (if includeLowercase opts
                then push_random t (lowerChars (excludeSimilar opts)) ([], 0) else ([], 0));
          s2 = (if includeUppercase opts
                then push_random t (upperChars (excludeSimilar opts)) s1 else s1);
          s3 = (if includeNumbers opts
                then push_random t (numberChars (excludeSimilar opts)) s2 else s2)
      in if includeSpecialChars opts
         then push_random t (specialChars (excludeSimilar opts)) s3 else s3)"

text \<open>\<open>for (let i = requiredChars.length; i < length; i++)\<close>, counted by the number of
  rounds left.\<close>

fun fill :: "tape \<Rightarrow> string \<Rightarrow> nat \<Rightarrow> gen_state \<Rightarrow> gen_state" where
  "fill t charset 0 st = st"
| "fill t charset (Suc n) st = fill t charset n (push_random t charset st)"

text \<open>\<open>for (let i = requiredChars.length - 1; i > 0; i--)\<close>: the Fisher-Yates shuffle,
  started at index \<open>i\<close>.\<close>

fun shuffle :: "tape \<Rightarrow> nat \<Rightarrow> gen_state \<Rightarrow> gen_state" where
  "shuffle t 0 st = st"
| "shuffle t (Suc m) st =
     (let i = Suc m;
          j = randomInt t (snd st) (i + 1);
          xs = fst st
      in shuffle t m (xs[i := xs ! j, j := xs ! i], Suc (snd st)))"

definition generateSecurePassword :: "gen_options \<Rightarrow> tape \<Rightarrow> js_error + string" where
  "generateSecurePassword opts t =
     (if opt_length opts < minPasswordLength \<or> opt_length opts > maxPasswordLength
      then Inl (Error ''Password length must be between 8 and 128'')
      else if build_charset opts = []
      then Inl (Error ''At least one character type must be included'')
      else let req = required_chars t opts;
               filled = fill t (build_charset opts) (opt_length opts - length (fst req)) req
           in Inr (fst (shuffle t (length (fst filled) - 1) filled)))"

section \<open>User-record store\<close>

text \<open>
  The store keeps one collection per Mongoose model.  A stored record holds the fields
  of the user and admin schemas that the operations below, or the hooks that run when
  they save, read or write: identity, login email, password hash, the identifier of the
  one session that is currently valid (\<open>None\<close> is JavaScript's \<open>undefined\<close>: no active
  session), the time of the last login, the \<open>updatedAt\<close> timestamp that Mongoose
  maintains for both schemas, the part of the user's profile that the completion hook
  reads together with the completion status it writes, and the admin's \<open>lastActiveAt\<close>,
  \<open>security.lastPasswordChange\<close> and \<open>security.passwordExpiresAt\<close>.  A field that a
  schema does not have is never touched for records of its collection.  Session times
  of the token library are seconds (\<open>timestamp\<close>); a JavaScript \<open>Date\<close> and
  \<open>Date.now()\<close> are milliseconds (\<open>date\<close>).
\<close>

type_synonym object_id = string
type_synonym timestamp = nat
type_synonym date = nat

record profile =
  pr_firstName :: js_value
  pr_lastName :: js_value
  pr_phone :: js_value
  pr_dateOfBirth :: js_value
  pr_nationality :: js_value
  pr_academicBackground :: "string list"
  pr_emailNotifications :: js_value
  pr_smsNotifications :: js_value
  pr_marketingEmails :: js_value

record completion =
  cs_personalInfo :: bool
  cs_academicBackground :: bool
  cs_documents :: bool
  cs_contactPreferences :: bool
  cs_overallCompletion :: nat

record account =
  a_id :: object_id
  a_email :: string
  a_passwordHash :: string
  a_sessionId :: "string option"
  a_lastLoginAt :: "date option"
  a_updatedAt :: date
  a_profile :: profile
  a_profileCompletionStatus :: "completion option"
  a_lastActiveAt :: date
  a_lastPasswordChange :: "date option"
  a_passwordExpiresAt :: "date option"

datatype model_name = User | Admin

text \<open>
  A document is a record loaded from its collection together with the paths whose value
  was changed since, which is what \<open>isModified\<close> inspects: assigning to a path the value
  it already has does not mark it.
\<close>

datatype path = P_passwordHash | P_sessionId | P_lastLoginAt

record document =
  d_model :: model_name
  d_fields :: account
  d_modified :: "path set"

record store =
  users :: "account list"
  admins :: "account list"

definition collection :: "model_name \<Rightarrow> store \<Rightarrow> account list" where
  "collection m s = (case m of User \<Rightarrow> users s | Admin \<Rightarrow> admins s)"

definition loaded :: "model_name \<Rightarrow> account \<Rightarrow> document" where
  "loaded m a = \<lparr>d_model = m, d_fields = a, d_modified = {}\<rparr>"

text \<open>
  \<open>Model.findById(id)\<close> casts the identity to an object id first and rejects with a
  \<open>CastError\<close> when that fails.  Which strings can be cast is decided by the database
  library and is the parameter \<open>castable\<close>.
\<close>

definition CastError :: js_error where
  "CastError = named_error ''CastError'' ''Cast to ObjectId failed''"

definition findById ::
  "(string \<Rightarrow> bool) \<Rightarrow> model_name \<Rightarrow> store \<Rightarrow> object_id \<Rightarrow> js_error + document option" where
  "findById castable m s i =
     (if \<not> castable i then Inl CastError
      else Inr (map_option (loaded m) (find (\<lambda>a. a_id a = i) (collection m s))))"

text \<open>\<open>findByEmail(email)\<close> is \<open>findOne({ email: email.toLowerCase().trim() })\<close>.\<close>

definition findByEmail :: "store \<Rightarrow> string \<Rightarrow> document option" where
  "findByEmail s email =
     map_option (loaded User) (find (\<lambda>a. a_email a = trim (toLowerCase email)) (users s))"

definition set_sessionId :: "string option \<Rightarrow> document \<Rightarrow> document" where
  "set_sessionId v d =
     (if a_sessionId (d_fields d) = v then d
      else d\<lparr>d_fields := (d_fields d)\<lparr>a_sessionId := v\<rparr>,
             d_modified := insert P_sessionId (d_modified d)\<rparr>)"

text \<open>Assigning \<open>new Date()\<close>, the argument \<open>t\<close>, to \<open>lastLoginAt\<close>.\<close>

definition set_lastLoginAt :: "date \<Rightarrow> document \<Rightarrow> document" where
  "set_lastLoginAt t d =
     (if a_lastLoginAt (d_fields d) = Some t then d
      else d\<lparr>d_fields := (d_fields d)\<lparr>a_lastLoginAt := Some t\<rparr>,
             d_modified := insert P_lastLoginAt (d_modified d)\<rparr>)"

text \<open>The instance method \<open>generateSessionId\<close>: the new identifier is the hexadecimal
  form of 32 random bytes, here the argument \<open>nonce\<close>.\<close>

definition generateSessionId :: "string \<Rightarrow> document \<Rightarrow> document" where
  "generateSessionId nonce d = set_sessionId (Some nonce) d"

subsection \<open>Saving a document\<close>

text \<open>
  \<open>document.save()\<close> runs, in this order, the schema validation, the timestamp hook of
  the \<open>timestamps\<close> option and the pre-save hooks of the schema, and then writes the
  document.  Validation checks the paths of the document against the schema.  The store
  is assumed to hold records that pass it, as they did when they were stored, so that
  only a path that was assigned since the document was loaded can fail: \<open>sessionId\<close>
  and \<open>lastLoginAt\<close> have no validator, \<open>passwordHash\<close> is required and has a minimum
  length of 60 in both schemas.
\<close>

definition ValidationError :: "(string \<times> string) list \<Rightarrow> js_error" where
  "ValidationError es = (named_error ''ValidationError'' ''Validation failed'')\<lparr>e_errors := es\<rparr>"

definition validateBeforeSave :: "document \<Rightarrow> js_error + document" where
  "validateBeforeSave d =
     (if P_passwordHash \<in> d_modified d \<and> a_passwordHash (d_fields d) = []
      then Inl (ValidationError [(''passwordHash'', ''Password is required'')])
      else if P_passwordHash \<in> d_modified d \<and> length (a_passwordHash (d_fields d)) < 60
      then Inl (ValidationError [(''passwordHash'', ''Password hash is invalid'')])
      else Inr d)"

text \<open>The timestamp hook sets \<open>updatedAt\<close> when some path of the document is modified.\<close>

definition timestampsPreSave :: "date \<Rightarrow> document \<Rightarrow> document" where
  "timestampsPreSave today d =
     (if d_modified d \<noteq> {} then d\<lparr>d_fields := (d_fields d)\<lparr>a_updatedAt := today\<rparr>\<rparr> else d)"

text \<open>\<open>bcrypt.hash\<close>, with the salt it draws, is a parameter; it may reject.\<close>

type_synonym bcrypt_hash = "string \<Rightarrow> js_error + string"

text \<open>The pre-save middleware that hashes the password.  The admin schema's version also
  records the change and sets the password to expire 90 days later (days of 24 hours: a
  change of daylight saving time in between is left out).\<close>

definition pre_save_hash :: "bcrypt_hash \<Rightarrow> date \<Rightarrow> document \<Rightarrow> js_error + document" where
  "pre_save_hash hash today d =
     (if P_passwordHash \<notin> d_modified d then Inr d
      else case hash (a_passwordHash (d_fields d)) of
             Inl error \<Rightarrow> Inl error
           | Inr h \<Rightarrow>
               (case d_model d of
                  User \<Rightarrow> Inr (d\<lparr>d_fields := (d_fields d)\<lparr>a_passwordHash := h\<rparr>\<rparr>)
                | Admin \<Rightarrow>
                    Inr (d\<lparr>d_fields := (d_fields d)
                           \<lparr>a_passwordHash := h,
                            a_lastPasswordChange := Some today,
                            a_passwordExpiresAt := Some (today + 90 * 24 * 60 * 60 * 1000)\<rparr>\<rparr>)))"

text \<open>
  The instance method \<open>calculateProfileCompletion\<close> of the user schema.  The total
  weight is 100, so the rounded percentage is the completed weight itself; the
  \<open>documents\<close> flag is kept, and is false when there was no status yet.
\<close>

fun is_boolean :: "js_value \<Rightarrow> bool" where
  "is_boolean (JBool b) = True"
| "is_boolean v = False"

definition calculateProfileCompletion :: "account \<Rightarrow> account" where
  "calculateProfileCompletion a =
     (let p = a_profile a;
          personalInfo = (truthy (pr_firstName p) \<and> truthy (pr_lastName p)
            \<and> truthy (pr_phone p) \<and> truthy (pr_dateOfBirth p) \<and> truthy (pr_nationality p));
          academicBackground = (length (pr_academicBackground p) > 0);
          documents = (case a_profileCompletionStatus a of
                         None \<Rightarrow> False | Some c \<Rightarrow> cs_documents c);
          contactPreferences = (is_boolean (pr_emailNotifications p)
            \<and> is_boolean (pr_smsNotifications p) \<and> is_boolean (pr_marketingEmails p));
          completedWeight = (if personalInfo then 30 else 0)
            + (if academicBackground then 25 else 0)
            + (if documents then 25 else 0)
            + (if contactPreferences then 20 else 0)
      in a\<lparr>a_profileCompletionStatus :=
             Some \<lparr>cs_personalInfo = personalInfo, cs_academicBackground = academicBackground,
                   cs_documents = documents, cs_contactPreferences = contactPreferences,
                   cs_overallCompletion = completedWeight\<rparr>\<rparr>)"

text \<open>The second pre-save middleware: the user schema recomputes the profile completion,
  the admin schema sets \<open>lastActiveAt\<close> when a session identifier was assigned.\<close>

definition pre_save_second :: "date \<Rightarrow> document \<Rightarrow> document" where
  "pre_save_second today d =
     (case d_model d of
        User \<Rightarrow> d\<lparr>d_fields := calculateProfileCompletion (d_fields d)\<rparr>
      | Admin \<Rightarrow>
          (if P_sessionId \<in> d_modified d
              \<and> (case a_sessionId (d_fields d) of None \<Rightarrow> False | Some sid \<Rightarrow> sid \<noteq> [])
           then d\<lparr>d_fields := (d_fields d)\<lparr>a_lastActiveAt := today\<rparr>\<rparr>
           else d))"

text \<open>Writing a record replaces the stored record with the same identity, or inserts
  the record when the collection has none.\<close>

fun put :: "account \<Rightarrow> account list \<Rightarrow> account list" where
  "put a [] = [a]"
| "put a (b # c) = (if a_id b = a_id a then a # c else b # put a c)"

definition write_record :: "model_name \<Rightarrow> account \<Rightarrow> store \<Rightarrow> store" where
  "write_record m a s =
     (case m of User \<Rightarrow> s\<lparr>users := put a (users s)\<rparr>
              | Admin \<Rightarrow> s\<lparr>admins := put a (admins s)\<rparr>)"

definition save ::
  "bcrypt_hash \<Rightarrow> date \<Rightarrow> store \<Rightarrow> document \<Rightarrow> js_error + (document \<times> store)" where
  "save hash today s d =
     (case validateBeforeSave d of
        Inl error \<Rightarrow> Inl error
      | Inr d0 \<Rightarrow>
          (case pre_save_hash hash today (timestampsPreSave today d0) of
             Inl error \<Rightarrow> Inl error
           | Inr d1 \<Rightarrow>
               (let d' = pre_save_second today d1
                in Inr (d'\<lparr>d_modified := {}\<rparr>, write_record (d_model d') (d_fields d') s))))"

text \<open>
  The fields that a save may write when the document was loaded and only its session
  identifier was assigned are the session identifier, \<open>updatedAt\<close>, the profile
  completion status and \<open>lastActiveAt\<close>.  The following function blanks them, so that
  two records have the same image exactly when they agree on every other field.
\<close>

definition outside_session_fields :: "account \<Rightarrow> account" where
  "outside_session_fields a =
     a\<lparr>a_sessionId := None, a_updatedAt := 0, a_profileCompletionStatus := None,
       a_lastActiveAt := 0\<rparr>"

section \<open>Signed tokens\<close>

text \<open>
  The token library is not part of the repository; its documented behaviour is modelled
  symbolically.  A signed token is the record of what was signed and of the secret it
  was signed with.  Tokens travel as strings: \<open>jwt_decode\<close>, a parameter throughout,
  tells which signed token a string is the compact form of, if any.  Verification
  checks, in this order, the signature, the not-before time, the expiry, and the
  audience and issuer when the caller asks for them.
\<close>

record payload =
  p_id :: object_id
  p_email :: "string option"
  p_sessionId :: "string option"
  p_type :: "string option"
  p_tokenType :: "string option"
  p_purpose :: "string option"
  p_timestamp :: "date option"

record jwt =
  j_secret :: string
  j_issuer :: "string option"
  j_audience :: "string option"
  j_exp :: "timestamp option"
  j_nbf :: "timestamp option"
  j_payload :: payload

type_synonym jwt_decode = "string \<Rightarrow> jwt option"

record sign_options =
  so_expiresIn :: nat
  so_issuer :: string
  so_audience :: string

definition jwt_sign :: "timestamp \<Rightarrow> payload \<Rightarrow> string \<Rightarrow> sign_options \<Rightarrow> jwt" where
  "jwt_sign now pl secret opts =
     \<lparr>j_secret = secret, j_issuer = Some (so_issuer opts), j_audience = Some (so_audience opts),
      j_exp = Some (now + so_expiresIn opts), j_nbf = None, j_payload = pl\<rparr>"

record verify_options =
  vo_issuer :: "string option"
  vo_audience :: "string option"

definition no_verify_options :: verify_options where
  "no_verify_options = \<lparr>vo_issuer = None, vo_audience = None\<rparr>"

definition JsonWebTokenError :: "string \<Rightarrow> js_error" where
  "JsonWebTokenError msg = named_error ''JsonWebTokenError'' msg"

definition TokenExpiredError :: js_error where
  "TokenExpiredError = named_error ''TokenExpiredError'' ''jwt expired''"

definition NotBeforeError :: js_error where
  "NotBeforeError = named_error ''NotBeforeError'' ''jwt not active''"

definition option_mismatch :: "string option \<Rightarrow> string option \<Rightarrow> bool" where
  "option_mismatch expected actual =
     (case expected of None \<Rightarrow> False | Some e \<Rightarrow> actual \<noteq> Some e)"

definition not_yet_valid :: "timestamp \<Rightarrow> jwt \<Rightarrow> bool" where
  "not_yet_valid now j = (case j_nbf j of None \<Rightarrow> False | Some n \<Rightarrow> n > now)"

definition expired :: "timestamp \<Rightarrow> jwt \<Rightarrow> bool" where
  "expired now j = (case j_exp j of None \<Rightarrow> False | Some e \<Rightarrow> now \<ge> e)"

definition jwt_verify ::
  "jwt_decode \<Rightarrow> timestamp \<Rightarrow> string \<Rightarrow> string \<Rightarrow> verify_options \<Rightarrow> js_error + payload" where
  "jwt_verify dec now token secret opts =
     (if token = [] then Inl (JsonWebTokenError ''jwt must be provided'')
      else (case dec token of
        None \<Rightarrow> Inl (JsonWebTokenError ''jwt malformed'')
      | Some j \<Rightarrow>
          (if secret = [] then Inl (JsonWebTokenError ''secret or public key must be provided'')
           else if j_secret j \<noteq> secret then Inl (JsonWebTokenError ''invalid signature'')
           else if not_yet_valid now j then Inl NotBeforeError
           else if expired now j then Inl TokenExpiredError
           else if option_mismatch (vo_audience opts) (j_audience j)
           then Inl (JsonWebTokenError ''jwt audience invalid'')
           else if option_mismatch (vo_issuer opts) (j_issuer j)
           then Inl (JsonWebTokenError ''jwt issuer invalid'')
           else Inr (j_payload j))))"

section \<open>Authentication service\<close>

text \<open>The configuration read from the environment; expiry times are in seconds.\<close>

record config =
  accessTokenSecret :: string
  refreshTokenSecret :: string
  accessTokenExpiry :: nat
  refreshTokenExpiry :: nat

record token_pair =
  accessToken :: jwt
  refreshToken :: jwt
  expiresIn :: nat
  tokenType :: string

definition modelName_lower :: "model_name \<Rightarrow> string" where
  "modelName_lower m = (case m of User \<Rightarrow> ''user'' | Admin \<Rightarrow> ''admin'')"

definition users_sign_options :: "nat \<Rightarrow> sign_options" where
  "users_sign_options ttl =
     \<lparr>so_expiresIn = ttl, so_issuer = ''uniapply-hub'', so_audience = ''uniapply-hub-users''\<rparr>"

definition users_verify_options :: verify_options where
  "users_verify_options =
     \<lparr>vo_issuer = Some ''uniapply-hub'', vo_audience = Some ''uniapply-hub-users''\<rparr>"

definition reset_verify_options :: verify_options where
  "reset_verify_options =
     \<lparr>vo_issuer = Some ''uniapply-hub'', vo_audience = Some ''uniapply-hub-reset''\<rparr>"

definition session_payload :: "document \<Rightarrow> payload" where
  "session_payload user =
     \<lparr>p_id = a_id (d_fields user), p_email = Some (a_email (d_fields user)),
      p_sessionId = a_sessionId (d_fields user),
      p_type = Some (modelName_lower (d_model user)),
      p_tokenType = None, p_purpose = None, p_timestamp = None\<rparr>"

definition generateTokens :: "config \<Rightarrow> timestamp \<Rightarrow> document \<Rightarrow> bool \<Rightarrow> token_pair" where
  "generateTokens cfg now user rememberMe =
     (let pl = session_payload user;
          access = jwt_sign now pl (accessTokenSecret cfg)
                     (users_sign_options (accessTokenExpiry cfg));
          refreshExpiry = (if rememberMe then 30 * 24 * 60 * 60 else refreshTokenExpiry cfg);
          refresh = jwt_sign now (pl\<lparr>p_tokenType := Some ''refresh''\<rparr>) (refreshTokenSecret cfg)
                      (users_sign_options refreshExpiry)
      in \<lparr>accessToken = access, refreshToken = refresh,
          expiresIn = accessTokenExpiry cfg, tokenType = ''Bearer''\<rparr>)"

definition verifyAccessToken ::
  "config \<Rightarrow> jwt_decode \<Rightarrow> timestamp \<Rightarrow> string \<Rightarrow> js_error + payload" where
  "verifyAccessToken cfg dec now token =
     try_catch (jwt_verify dec now token (accessTokenSecret cfg) users_verify_options)
       (\<lambda>error.
          if e_name error = ''TokenExpiredError'' then Inl (Error ''ACCESS_TOKEN_EXPIRED'')
          else if e_name error = ''JsonWebTokenError'' then Inl (Error ''INVALID_ACCESS_TOKEN'')
          else Inl (Error ''TOKEN_VERIFICATION_FAILED''))"

text \<open>The check of \<open>tokenType\<close> throws inside the \<open>try\<close> block, so the handler below
  sees that error as well.\<close>

definition verifyRefreshToken ::
  "config \<Rightarrow> jwt_decode \<Rightarrow> timestamp \<Rightarrow> string \<Rightarrow> js_error + payload" where
  "verifyRefreshToken cfg dec now token =
     try_catch
       (case jwt_verify dec now token (refreshTokenSecret cfg) users_verify_options of
          Inl error \<Rightarrow> Inl error
        | Inr decoded \<Rightarrow>
            if p_tokenType decoded \<noteq> Some ''refresh'' then Inl (Error ''INVALID_REFRESH_TOKEN'')
            else Inr decoded)
       (\<lambda>error.
          if e_name error = ''TokenExpiredError'' then Inl (Error ''REFRESH_TOKEN_EXPIRED'')
          else if e_name error = ''JsonWebTokenError'' then Inl (Error ''INVALID_REFRESH_TOKEN'')
          else Inl (Error ''TOKEN_VERIFICATION_FAILED''))"

text \<open>\<open>refreshTokens(refreshToken)\<close>; \<open>today\<close> is the time of the save.\<close>

definition refreshTokens ::
  "config \<Rightarrow> jwt_decode \<Rightarrow> (string \<Rightarrow> bool) \<Rightarrow> timestamp \<Rightarrow> date \<Rightarrow> string \<Rightarrow> bcrypt_hash
     \<Rightarrow> store \<Rightarrow> string \<Rightarrow> js_error + (token_pair \<times> store)" where
  "refreshTokens cfg dec castable now today nonce hash s token =
     (case verifyRefreshToken cfg dec now token of
        Inl error \<Rightarrow> Inl error
      | Inr decoded \<Rightarrow>
          (let UserModel = (if p_type decoded = Some ''admin'' then Admin else User)
           in (case findById castable UserModel s (p_id decoded) of
                 Inl error \<Rightarrow> Inl error
               | Inr None \<Rightarrow> Inl (Error ''USER_NOT_FOUND'')
               | Inr (Some user) \<Rightarrow>
                   (if a_sessionId (d_fields user) \<noteq> p_sessionId decoded
                    then Inl (Error ''SESSION_INVALID'')
                    else (case save hash today s (generateSessionId nonce user) of
                            Inl error \<Rightarrow> Inl error
                          | Inr (user', s') \<Rightarrow>
                              Inr (generateTokens cfg now user' False, s'))))))"

text \<open>\<open>revokeSession(userId, userType)\<close>: any error is caught and reported as \<open>false\<close>.\<close>

definition revokeSession ::
  "(string \<Rightarrow> bool) \<Rightarrow> bcrypt_hash \<Rightarrow> date \<Rightarrow> store \<Rightarrow> object_id \<Rightarrow> string \<Rightarrow> bool \<times> store" where
  "revokeSession castable hash today s userId userType =
     (let UserModel = (if userType = ''admin'' then Admin else User)
      in case findById castable UserModel s userId of
           Inl error \<Rightarrow> (False, s)
         | Inr None \<Rightarrow> (True, s)
         | Inr (Some user) \<Rightarrow>
             (case save hash today s (set_sessionId None user) of
                Inl error \<Rightarrow> (False, s)
              | Inr (user', s') \<Rightarrow> (True, s')))"

text \<open>The payload of a reset or verification token carries \<open>Date.now()\<close>, the argument
  \<open>today\<close>; \<open>now\<close> is the clock of the token library.\<close>

definition reset_payload :: "date \<Rightarrow> document \<Rightarrow> payload" where
  "reset_payload today user =
     \<lparr>p_id = a_id (d_fields user), p_email = Some (a_email (d_fields user)),
      p_sessionId = None, p_type = None, p_tokenType = None,
      p_purpose = Some ''password_reset'', p_timestamp = Some today\<rparr>"

definition generateResetToken :: "config \<Rightarrow> timestamp \<Rightarrow> date \<Rightarrow> document \<Rightarrow> jwt" where
  "generateResetToken cfg now today user =
     jwt_sign now (reset_payload today user) (accessTokenSecret cfg)
       \<lparr>so_expiresIn = 60 * 60, so_issuer = ''uniapply-hub'',
        so_audience = ''uniapply-hub-reset''\<rparr>"

definition verifyResetToken ::
  "config \<Rightarrow> jwt_decode \<Rightarrow> timestamp \<Rightarrow> string \<Rightarrow> js_error + payload" where
  "verifyResetToken cfg dec now token =
     try_catch
       (case jwt_verify dec now token (accessTokenSecret cfg) reset_verify_options of
          Inl error \<Rightarrow> Inl error
        | Inr decoded \<Rightarrow>
            if p_purpose decoded \<noteq> Some ''password_reset'' then Inl (Error ''INVALID_RESET_TOKEN'')
            else Inr decoded)
       (\<lambda>error.
          if e_name error = ''TokenExpiredError'' then Inl (Error ''RESET_TOKEN_EXPIRED'')
          else Inl (Error ''INVALID_RESET_TOKEN''))"

definition verification_payload :: "date \<Rightarrow> document \<Rightarrow> payload" where
  "verification_payload today user =
     \<lparr>p_id = a_id (d_fields user), p_email = Some (a_email (d_fields user)),
      p_sessionId = None, p_type = None, p_tokenType = None,
      p_purpose = Some ''email_verification'', p_timestamp = Some today\<rparr>"

text \<open>\<open>generateVerificationToken\<close>, which the registration route calls for the welcome
  email.\<close>

definition generateVerificationToken :: "config \<Rightarrow> timestamp \<Rightarrow> date \<Rightarrow> document \<Rightarrow> jwt" where
  "generateVerificationToken cfg now today user =
     jwt_sign now (verification_payload today user) (accessTokenSecret cfg)
       \<lparr>so_expiresIn = 24 * 60 * 60, so_issuer = ''uniapply-hub'',
        so_audience = ''uniapply-hub-verify''\<rparr>"

section \<open>Authentication middleware\<close>

text \<open>
  The middleware answers the request itself (\<open>Respond status code message\<close>), hands
  the request on with the account attached (\<open>Next\<close>), or hands an error to the
  application's error handler (\<open>NextError\<close>).  The header is \<open>None\<close> when the request
  has no \<open>authorization\<close> header.
\<close>

datatype gate_result =
    Respond nat string string
  | Next document
  | NextError js_error

definition gate_catch :: "js_error \<Rightarrow> gate_result" where
  "gate_catch error =
     (if e_name error = ''JsonWebTokenError''
      then Respond 401 ''INVALID_TOKEN'' ''Invalid authentication token''
      else if e_name error = ''TokenExpiredError''
      then Respond 401 ''TOKEN_EXPIRED'' ''Authentication token has expired''
      else NextError error)"

definition no_bearer :: "string option \<Rightarrow> bool" where
  "no_bearer authorization =
     (case authorization of
        None \<Rightarrow> True
      | Some authHeader \<Rightarrow> authHeader = [] \<or> \<not> startsWith authHeader ''Bearer '')"

text \<open>The lookup is inside the \<open>try\<close> block, so an error of \<open>findById\<close> reaches the same
  handler as an error of the verification.\<close>

definition authenticateToken ::
  "config \<Rightarrow> jwt_decode \<Rightarrow> (string \<Rightarrow> bool) \<Rightarrow> timestamp \<Rightarrow> store \<Rightarrow> string option
     \<Rightarrow> gate_result" where
  "authenticateToken cfg dec castable now s authorization =
     (case authorization of
        None \<Rightarrow> Respond 401 ''UNAUTHORIZED'' ''Authentication token required''
      | Some authHeader \<Rightarrow>
          if authHeader = [] \<or> \<not> startsWith authHeader ''Bearer ''
          then Respond 401 ''UNAUTHORIZED'' ''Authentication token required''
          else (case jwt_verify dec now (drop 7 authHeader) (accessTokenSecret cfg)
                       no_verify_options of
                  Inl error \<Rightarrow> gate_catch error
                | Inr decoded \<Rightarrow>
                    (case findById castable User s (p_id decoded) of
                       Inl error \<Rightarrow> gate_catch error
                     | Inr None \<Rightarrow> Respond 401 ''USER_NOT_FOUND'' ''User not found''
                     | Inr (Some user) \<Rightarrow>
                         (if a_sessionId (d_fields user) \<noteq> p_sessionId decoded
                          then Respond 401 ''SESSION_INVALID'' ''Session has been invalidated''
                          else Next user))))"

section \<open>User service: login\<close>

record user_view =
  v_id :: object_id
  v_email :: string
  v_lastLoginAt :: "date option"
  v_updatedAt :: date
  v_profile :: profile
  v_profileCompletionStatus :: "completion option"

text \<open>\<open>sanitizeUserForResponse\<close> removes \<open>passwordHash\<close> and \<open>sessionId\<close> from the
  fields of the user.\<close>

definition sanitizeUserForResponse :: "document \<Rightarrow> user_view" where
  "sanitizeUserForResponse user =
     \<lparr>v_id = a_id (d_fields user), v_email = a_email (d_fields user),
      v_lastLoginAt = a_lastLoginAt (d_fields user),
      v_updatedAt = a_updatedAt (d_fields user),
      v_profile = a_profile (d_fields user),
      v_profileCompletionStatus = a_profileCompletionStatus (d_fields user)\<rparr>"

definition handleServiceError :: "js_error \<Rightarrow> string \<Rightarrow> js_error" where
  "handleServiceError error ctx =
     (if e_name error = ''ValidationError''
      then (Error ''Validation failed'')
             \<lparr>e_code := JStr ''VALIDATION_ERROR'', e_details := Some (e_errors error)\<rparr>
      else if e_code error = JNum 11000
      then (Error ''Duplicate value detected'')\<lparr>e_code := JStr ''DUPLICATE_ERROR''\<rparr>
      else if e_validationErrors error \<noteq> None
      then error\<lparr>e_code := JStr ''VALIDATION_ERROR''\<rparr>
      else (Error (ctx @ '': '' @ e_message error))
             \<lparr>e_code := JStr ''SERVICE_ERROR'',
              e_originalError := Some (e_name error, e_message error)\<rparr>)"

text \<open>\<open>authenticateUser(credentials)\<close>; the email is a string, the password any
  value of the request body; \<open>today\<close> is the time of the login.\<close>

definition authenticateUser ::
  "bcrypt_compare \<Rightarrow> bcrypt_hash \<Rightarrow> config \<Rightarrow> timestamp \<Rightarrow> date \<Rightarrow> string \<Rightarrow> store
     \<Rightarrow> string \<Rightarrow> js_value \<Rightarrow> bool \<Rightarrow> js_error + ((user_view \<times> token_pair) \<times> store)" where
  "authenticateUser compare hash cfg now today nonce s email password rememberMe =
     try_catch
       (if email = [] \<or> \<not> truthy password then Inl (Error ''Email and password are required'')
        else (case findByEmail s email of
                None \<Rightarrow> Inl (Error ''Invalid email or password'')
              | Some user \<Rightarrow>
                  (case model_verifyPassword compare (JStr (a_passwordHash (d_fields user)))
                          password of
                     Inl error \<Rightarrow> Inl error
                   | Inr isValidPassword \<Rightarrow>
                       (if \<not> isValidPassword then Inl (Error ''Invalid email or password'')
                        else (case save hash today s
                                     (set_lastLoginAt today (generateSessionId nonce user)) of
                                Inl error \<Rightarrow> Inl error
                              | Inr (user', s') \<Rightarrow>
                                  Inr ((sanitizeUserForResponse user',
                                        generateTokens cfg now user' rememberMe), s'))))))
       (\<lambda>error. Inl (handleServiceError error ''Authentication failed''))"

section \<open>Authentication routes\<close>

datatype detail = FieldDetail string string | TextDetail string

record error_body =
  eb_code :: js_value
  eb_message :: string
  eb_details :: "detail list option"

datatype reply_body = ErrorReply error_body | MessageReply string

datatype response = Reply nat reply_body | Forward js_error

definition field_details :: "(string \<times> string) list \<Rightarrow> detail list" where
  "field_details es = map (\<lambda>(field, msg). FieldDetail field msg) es"

definition formatServiceError :: "js_error \<Rightarrow> error_body" where
  "formatServiceError error =
     (if e_code error = JStr ''VALIDATION_ERROR''
      then \<lparr>eb_code = e_code error, eb_message = e_message error,
            eb_details = Some (case e_details error of
                                 Some d \<Rightarrow> field_details d
                               | None \<Rightarrow> (case e_validationErrors error of
                                             Some v \<Rightarrow> map TextDetail v
                                           | None \<Rightarrow> []))\<rparr>
      else \<lparr>eb_code = (if truthy (e_code error) then e_code error else JStr ''SERVICE_ERROR''),
            eb_message = (if e_message error \<noteq> [] then e_message error
                          else ''An error occurred''),
            eb_details = None\<rparr>)"

text \<open>The \<open>catch\<close> block of \<open>POST /api/auth/login\<close>.\<close>

definition login_catch :: "js_error \<Rightarrow> response" where
  "login_catch error =
     (if truthy (e_code error) then Reply 401 (ErrorReply (formatServiceError error))
      else Forward error)"

definition validation_error_reply :: "(string \<times> string) list \<Rightarrow> response" where
  "validation_error_reply es =
     Reply 400 (ErrorReply \<lparr>eb_code = JStr ''VALIDATION_ERROR'',
                            eb_message = ''Invalid input data'',
                            eb_details = Some (field_details es)\<rparr>)"

text \<open>
  What a route handler can change: the store, the messages handed to the email service
  (recipient and token), and the console.
\<close>

record world =
  w_store :: store
  w_outbox :: "(string \<times> jwt) list"
  w_console :: "string list"

text \<open>
  The module of the authentication routes declares these names and no others; the
  model classes and the token library are not among them, and they are no globals of
  the runtime.  Evaluating a name that is not bound throws a \<open>ReferenceError\<close>.
\<close>

definition routes_bindings :: "string list" where
  "routes_bindings =
     [''express'', ''body'', ''validationResult'', ''userService'', ''authService'',
      ''emailService'', ''router'', ''formatServiceError'', ''registerValidation'',
      ''loginValidation'']"

definition ReferenceError :: "string \<Rightarrow> js_error" where
  "ReferenceError name = named_error ''ReferenceError'' (name @ '' is not defined'')"

definition resolve :: "string \<Rightarrow> js_error + unit" where
  "resolve name = (if name \<in> set routes_bindings then Inr () else Inl (ReferenceError name))"

text \<open>\<open>POST /api/auth/forgot-password\<close>.  The predicate \<open>isEmail\<close> and the sanitizer
  \<open>normalizeEmail\<close> of the validation library are parameters.  The handler evaluates
  \<open>User.findByEmail(email)\<close> inside its \<open>try\<close> block before it responds, and its
  \<open>catch\<close> block hands every error to the application's error handler.\<close>

definition forgot_password ::
  "(string \<Rightarrow> bool) \<Rightarrow> (string \<Rightarrow> string) \<Rightarrow> string \<Rightarrow> world \<Rightarrow> response \<times> world" where
  "forgot_password isEmail normalizeEmail body_email w =
     (let errs = (if isEmail body_email then []
                  else [(''email'', ''Valid email address is required'')]);
          email = normalizeEmail body_email
      in if errs \<noteq> [] then (validation_error_reply errs, w)
         else (case resolve ''User'' of
                 Inl error \<Rightarrow> (Forward error, w)
               | Inr ok \<Rightarrow>
                   (Reply 200 (MessageReply
                      ''If an account with that email exists, a password reset email has been sent''),
                    (case findByEmail (w_store w) email of
                       None \<Rightarrow> w
                     | Some user \<Rightarrow>
                         w\<lparr>w_console := w_console w
                              @ [''Password reset requested for user: ''
                                 @ a_email (d_fields user)]\<rparr>))))"

text \<open>\<open>POST /api/auth/reset-password\<close>.  The pattern
  \<open>/^(?=.*[a-z])(?=.*[A-Z])(?=.*\d)/\<close> looks at the first line of the password.\<close>

definition first_line :: "string \<Rightarrow> string" where
  "first_line s = takeWhile (\<lambda>c. \<not> is_line_terminator c) s"

definition reset_validation :: "string \<Rightarrow> string \<Rightarrow> (string \<times> string) list" where
  "reset_validation token newPassword =
       (if token = [] then [(''token'', ''Reset token is required'')] else [])
     @ (if length newPassword < 8
        then [(''newPassword'', ''Password must be at least 8 characters long'')] else [])
     @ (if test_class lower_class (first_line newPassword)
           \<and> test_class upper_class (first_line newPassword)
           \<and> test_class digit_class (first_line newPassword)
        then []
        else [(''newPassword'',
               ''Password must contain at least one lowercase letter, uppercase letter, and number'')])"

definition reset_password :: "string \<Rightarrow> string \<Rightarrow> world \<Rightarrow> response \<times> world" where
  "reset_password token newPassword w =
     (if reset_validation token newPassword \<noteq> []
      then (validation_error_reply (reset_validation token newPassword), w)
      else (Reply 200 (MessageReply ''Password reset successfully''), w))"

section \<open>Example data\<close>

text \<open>A configuration, a store with one logged-in user, and some tokens on the wire, used
  where a property is evaluated at a concrete input.  In the examples an identity can be
  cast to an object id when it consists of 24 hexadecimal digits.\<close>

definition example_cfg :: config where
  "example_cfg =
     \<lparr>accessTokenSecret = ''access-secret'', refreshTokenSecret = ''refresh-secret'',
      accessTokenExpiry = 900, refreshTokenExpiry = 604800\<rparr>"

definition hex24 :: "string \<Rightarrow> bool" where
  "hex24 i = (length i = 24 \<and> list_all (\<lambda>c. c \<in> set ''0123456789abcdefABCDEF'') i)"

definition example_profile :: profile where
  "example_profile =
     \<lparr>pr_firstName = JStr ''Alice'', pr_lastName = JStr ''Doe'', pr_phone = JUndefined,
      pr_dateOfBirth = JUndefined, pr_nationality = JUndefined, pr_academicBackground = [],
      pr_emailNotifications = JBool True, pr_smsNotifications = JBool False,
      pr_marketingEmails = JBool False\<rparr>"

definition example_completion :: completion where
  "example_completion =
     \<lparr>cs_personalInfo = False, cs_academicBackground = False, cs_documents = False,
      cs_contactPreferences = True, cs_overallCompletion = 20\<rparr>"

definition alice :: account where
  "alice =
     \<lparr>a_id = ''507f1f77bcf86cd799439011'', a_email = ''alice@example.com'',
      a_passwordHash = ''$2b$12$N9qo8uLOickgx2ZMRZoMyeIjZAgcfl7p92ldGxad68LJZdL17lhWy'',
      a_sessionId = Some ''session-1'',
      a_lastLoginAt = Some 5, a_updatedAt = 5, a_profile = example_profile,
      a_profileCompletionStatus = Some example_completion, a_lastActiveAt = 0,
      a_lastPasswordChange = None, a_passwordExpiresAt = None\<rparr>"

definition example_store :: store where
  "example_store = \<lparr>users = [alice], admins = []\<rparr>"

text \<open>The record of the example user after a refresh, and after a logout, at time 7.\<close>

definition alice_rotated :: account where
  "alice_rotated = alice\<lparr>a_sessionId := Some ''session-2'', a_updatedAt := 7\<rparr>"

definition alice_logged_out :: account where
  "alice_logged_out = alice\<lparr>a_sessionId := None, a_updatedAt := 7\<rparr>"

definition example_world :: world where
  "example_world = \<lparr>w_store = example_store, w_outbox = [], w_console = []\<rparr>"

definition alice_tokens :: token_pair where
  "alice_tokens = generateTokens example_cfg 1000 (loaded User alice) False"

text \<open>A token signed with the access secret that is not valid before time 5000.\<close>

definition early_token :: jwt where
  "early_token = (accessToken alice_tokens)\<lparr>j_nbf := Some 5000, j_exp := Some 9000\<rparr>"

text \<open>An access token whose embedded identity is not an object id.\<close>

definition odd_id_token :: jwt where
  "odd_id_token =
     (accessToken alice_tokens)
       \<lparr>j_payload := (j_payload (accessToken alice_tokens))\<lparr>p_id := ''test123''\<rparr>\<rparr>"

text \<open>The email-verification token of the example user, issued at time 1000.\<close>

definition alice_verification_token :: jwt where
  "alice_verification_token =
     generateVerificationToken example_cfg 1000 1000000 (loaded User alice)"

definition example_dec :: jwt_decode where
  "example_dec wire =
     (if wire = ''access-1'' then Some (accessToken alice_tokens)
      else if wire = ''refresh-1'' then Some (refreshToken alice_tokens)
      else if wire = ''early-1'' then Some early_token
      else if wire = ''odd-1'' then Some odd_id_token
      else if wire = ''verify-1'' then Some alice_verification_token
      else None)"

definition failing_compare :: bcrypt_compare where
  "failing_compare password hash = Inl (Error ''Illegal arguments'')"

definition wrong_password_compare :: bcrypt_compare where
  "wrong_password_compare password hash = Inr False"

definition example_hash :: bcrypt_hash where
  "example_hash password = Inr (''hash-of-'' @ password)"

section \<open>Properties of the password service\<close>

subsection \<open>Strength validation\<close>

lemma make_suggestions_frame:
  "isValid (make_suggestions p r) = isValid r"
  "score (make_suggestions p r) = score r"
  "errors (make_suggestions p r) = errors r"
  by (simp_all add: make_suggestions_def push_suggestion_def Let_def)

lemma validate_string_valid_iff:
  "isValid (validate_string p u) =
     (errors (validate_string p u) = [] \<and> score (validate_string p u) \<ge> 60)"
  by (simp add: validate_string_def make_suggestions_frame decide_validity_def clamp_score_def)

lemma validate_string_score_range:
  "0 \<le> score (validate_string p u) \<and> score (validate_string p u) \<le> 100"
  by (simp add: validate_string_def make_suggestions_frame decide_validity_def clamp_score_def)

lemma early_return_invalid:
  "\<not> isValid (push_error m initial_result)"
  "errors (push_error m initial_result) \<noteq> []"
  "score (push_error m initial_result) = 0"
  by (simp_all add: push_error_def initial_result_def)

lemma validate_valid_iff:
  "isValid (validatePasswordStrength v u) =
     (errors (validatePasswordStrength v u) = [] \<and> score (validatePasswordStrength v u) \<ge> 60)"
  by (cases v) (simp_all add: validatePasswordStrength_def validate_string_valid_iff
       early_return_invalid)

lemma validate_score_range:
  "0 \<le> score (validatePasswordStrength v u) \<and> score (validatePasswordStrength v u) \<le> 100"
  by (cases v) (simp_all add: validatePasswordStrength_def validate_string_score_range
       early_return_invalid)

lemma length_rules_effect:
  "errors (length_rules p r) =
     errors r
     @ (if length p < minLength then [''Password must be at least 8 characters long''] else [])
     @ (if length p > maxLength then [''Password must not exceed 128 characters''] else [])"
  "score (length_rules p r) = score r + (if length p \<ge> minLength then 20 else 0)"
  by (simp_all add: length_rules_def Let_def push_error_def add_score_def)

lemma class_rule_effect:
  "errors (class_rule req cls msg pts p r) =
     errors r @ (if req \<and> \<not> test_class cls p then [msg] else [])"
  "score (class_rule req cls msg pts p r) = score r + (if test_class cls p then pts else 0)"
  by (simp_all add: class_rule_def push_error_def add_score_def)

lemma character_rules_effect:
  "errors (character_rules p r) =
     errors r
     @ (if \<not> test_class upper_class p
        then [''Password must contain at least one uppercase letter''] else [])
     @ (if \<not> test_class lower_class p
        then [''Password must contain at least one lowercase letter''] else [])
     @ (if \<not> test_class digit_class p
        then [''Password must contain at least one number''] else [])"
  "score (character_rules p r) =
     score r + (if test_class upper_class p then 15 else 0)
       + (if test_class lower_class p then 15 else 0)
       + (if test_class digit_class p then 15 else 0)
       + (if test_class special_class p then 10 else 0)"
  by (simp_all add: character_rules_def Let_def class_rule_effect requireUppercase_def
      requireLowercase_def requireNumbers_def requireSpecialChars_def split del: if_split)

lemma pattern_rule_effect:
  "errors (pattern_rule p r) =
     errors r @ (if forbidden p
        then [''Password contains forbidden patterns or is too common''] else [])"
  "score (pattern_rule p r) = score r"
  by (simp_all add: pattern_rule_def push_error_def)

lemma context_rules_effect:
  "errors (context_rules p u r) = errors r"
  "score (context_rules p u r) =
     score r - (if email_penalty p u then 10 else 0)
       - (if name_penalty p (ui_firstName u) then 5 else 0)
       - (if name_penalty p (ui_lastName u) then 5 else 0)"
  by (simp_all add: context_rules_def Let_def push_warning_def add_score_def)

lemma length_bonus_effect:
  "errors (length_bonus p r) = errors r"
  "score (length_bonus p r) =
     score r + (if length p \<ge> 12 then 10 else 0) + (if length p \<ge> 16 then 10 else 0)"
  by (simp_all add: length_bonus_def Let_def add_score_def)

lemma diversity_bonus_effect:
  "errors (diversity_bonus p r) = errors r"
  "score (diversity_bonus p r) =
     score r + (if 10 * length (remdups p) \<ge> 7 * length p then 5 else 0)"
  by (simp_all add: diversity_bonus_def Let_def add_score_def)

lemma validate_string_errors:
  "errors (validate_string p u) =
     (if length p < minLength then [''Password must be at least 8 characters long''] else [])
     @ (if length p > maxLength then [''Password must not exceed 128 characters''] else [])
     @ (if \<not> test_class upper_class p
        then [''Password must contain at least one uppercase letter''] else [])
     @ (if \<not> test_class lower_class p
        then [''Password must contain at least one lowercase letter''] else [])
     @ (if \<not> test_class digit_class p
        then [''Password must contain at least one number''] else [])
     @ (if forbidden p
        then [''Password contains forbidden patterns or is too common''] else [])"
  by (simp add: validate_string_def make_suggestions_frame decide_validity_def clamp_score_def
      diversity_bonus_effect length_bonus_effect context_rules_effect pattern_rule_effect
      character_rules_effect length_rules_effect initial_result_def split del: if_split)

lemma validate_string_score:
  "score (validate_string p u) =
     max 0 (min 100
       ((if length p \<ge> minLength then 20 else 0)
        + (if test_class upper_class p then 15 else 0)
        + (if test_class lower_class p then 15 else 0)
        + (if test_class digit_class p then 15 else 0)
        + (if test_class special_class p then 10 else 0)
        - (if email_penalty p u then 10 else 0)
        - (if name_penalty p (ui_firstName u) then 5 else 0)
        - (if name_penalty p (ui_lastName u) then 5 else 0)
        + (if length p \<ge> 12 then 10 else 0)
        + (if length p \<ge> 16 then 10 else 0)
        + (if 10 * length (remdups p) \<ge> 7 * length p then 5 else 0)))"
  by (simp add: validate_string_def make_suggestions_frame decide_validity_def clamp_score_def
      diversity_bonus_effect length_bonus_effect context_rules_effect pattern_rule_effect
      character_rules_effect length_rules_effect initial_result_def
      split del: if_split)

lemma eight_char_errors:
  assumes "length p = 8" "test_class upper_class p" "test_class lower_class p"
    "test_class digit_class p" "\<not> forbidden p"
  shows "errors (validate_string p u) = []"
  using assms by (simp add: validate_string_errors minLength_def maxLength_def)

lemma eight_char_score:
  assumes "length p = 8" "test_class upper_class p" "test_class lower_class p"
    "test_class digit_class p" "\<not> email_penalty p u"
    "\<not> name_penalty p (ui_firstName u)" "\<not> name_penalty p (ui_lastName u)"
  shows "65 \<le> score (validate_string p u)"
  using assms by (simp add: validate_string_score minLength_def)

lemma nonempty_truthy: "p \<noteq> [] \<Longrightarrow> validatePasswordStrength (JStr p) u = validate_string p u"
  by (simp add: validatePasswordStrength_def)

text \<open>
  Claim C7.  A password of exactly 8 characters with an uppercase letter, a lowercase
  letter and a digit, that matches no forbidden pattern and triggers no context penalty,
  gets a score of at least 60 and is valid.  For every input and every user context,
  the result is valid exactly when its list of errors is empty and its score, which
  always lies between 0 and 100, is at least 60.
\<close>

theorem strength_boundary_and_validity:
  "(length p = 8 \<and> test_class upper_class p \<and> test_class lower_class p
      \<and> test_class digit_class p \<and> \<not> forbidden p \<and> \<not> email_penalty p u
      \<and> \<not> name_penalty p (ui_firstName u) \<and> \<not> name_penalty p (ui_lastName u)
    \<longrightarrow> 60 \<le> score (validatePasswordStrength (JStr p) u)
        \<and> isValid (validatePasswordStrength (JStr p) u))
   \<and> (isValid (validatePasswordStrength v w)
        = (errors (validatePasswordStrength v w) = []
           \<and> 60 \<le> score (validatePasswordStrength v w)))
   \<and> 0 \<le> score (validatePasswordStrength v w)
   \<and> score (validatePasswordStrength v w) \<le> 100"
proof -
  have first: "60 \<le> score (validatePasswordStrength (JStr p) u)
        \<and> isValid (validatePasswordStrength (JStr p) u)"
    if h: "length p = 8" "test_class upper_class p" "test_class lower_class p"
      "test_class digit_class p" "\<not> forbidden p" "\<not> email_penalty p u"
      "\<not> name_penalty p (ui_firstName u)" "\<not> name_penalty p (ui_lastName u)"
  proof -
    from h(1) have ne: "p \<noteq> []" by auto
    have e: "errors (validate_string p u) = []"
      using h by (rule_tac eight_char_errors) simp_all
    have s: "65 \<le> score (validate_string p u)"
      using h by (rule_tac eight_char_score) simp_all
    show ?thesis
      using e s by (simp add: nonempty_truthy [OF ne] validate_string_valid_iff)
  qed
  show ?thesis
    using first validate_valid_iff [of v w] validate_score_range [of v w] by blast
qed

theorem strength_boundary_and_validity_witness:
  "length ''Abcdefg1'' = 8 \<and> test_class upper_class ''Abcdefg1''
   \<and> test_class lower_class ''Abcdefg1'' \<and> test_class digit_class ''Abcdefg1''
   \<and> \<not> forbidden ''Abcdefg1'' \<and> \<not> email_penalty ''Abcdefg1'' no_user_info
   \<and> \<not> name_penalty ''Abcdefg1'' (ui_firstName no_user_info)
   \<and> \<not> name_penalty ''Abcdefg1'' (ui_lastName no_user_info)
   \<and> 60 \<le> score (validatePasswordStrength (JStr ''Abcdefg1'') no_user_info)
   \<and> isValid (validatePasswordStrength (JStr ''Abcdefg1'') no_user_info)"
proof -
  have h: "length ''Abcdefg1'' = 8 \<and> test_class upper_class ''Abcdefg1''
   \<and> test_class lower_class ''Abcdefg1'' \<and> test_class digit_class ''Abcdefg1''
   \<and> \<not> forbidden ''Abcdefg1'' \<and> \<not> email_penalty ''Abcdefg1'' no_user_info
   \<and> \<not> name_penalty ''Abcdefg1'' (ui_firstName no_user_info)
   \<and> \<not> name_penalty ''Abcdefg1'' (ui_lastName no_user_info)"
    by code_simp
  show ?thesis
    using h strength_boundary_and_validity [of "''Abcdefg1''" no_user_info] by blast
qed

subsection \<open>Password verification\<close>

lemma try_catch_total: "\<exists>b. try_catch body (\<lambda>error. Inr c) = Inr b"
  by (cases body) (simp_all add: try_catch_def)

text \<open>
  Claim C9.  Whatever the two arguments are and whatever the hashing library does, both
  verification functions return a boolean and never throw; they return \<open>false\<close> when an
  argument is missing, empty or (for the service function) not a string, and when the
  library's comparison fails with an error.
\<close>

theorem verify_total:
  "(\<exists>b. verifyPassword compare password hash = Inr b)
   \<and> (\<not> truthy password \<or> \<not> truthy hash \<or> \<not> is_string password \<or> \<not> is_string hash
        \<or> (\<exists>e. compare password hash = Inl e)
      \<longrightarrow> verifyPassword compare password hash = Inr False)
   \<and> (\<exists>b. model_verifyPassword compare passwordHash candidate = Inr b)
   \<and> (\<not> truthy candidate \<or> \<not> truthy passwordHash
        \<or> (\<exists>e. compare candidate passwordHash = Inl e)
      \<longrightarrow> model_verifyPassword compare passwordHash candidate = Inr False)"
proof -
  have a: "\<exists>b. verifyPassword compare password hash = Inr b"
    unfolding verifyPassword_def by (rule try_catch_total)
  have b: "verifyPassword compare password hash = Inr False"
    if "\<not> truthy password \<or> \<not> truthy hash \<or> \<not> is_string password \<or> \<not> is_string hash
        \<or> (\<exists>e. compare password hash = Inl e)"
    using that by (auto simp: verifyPassword_def try_catch_def)
  have c: "\<exists>b. model_verifyPassword compare passwordHash candidate = Inr b"
    unfolding model_verifyPassword_def using try_catch_total by (simp split del: if_split) auto
  have d: "model_verifyPassword compare passwordHash candidate = Inr False"
    if "\<not> truthy candidate \<or> \<not> truthy passwordHash
        \<or> (\<exists>e. compare candidate passwordHash = Inl e)"
    using that by (auto simp: model_verifyPassword_def try_catch_def)
  show ?thesis using a b c d by blast
qed

theorem verify_total_witness:
  "\<not> is_string (JNum 5)
   \<and> verifyPassword failing_compare (JNum 5) (JStr ''corrupt'') = Inr False
   \<and> failing_compare (JStr ''secret'') (JStr ''corrupt'') = Inl (Error ''Illegal arguments'')
   \<and> verifyPassword failing_compare (JStr ''secret'') (JStr ''corrupt'') = Inr False
   \<and> model_verifyPassword failing_compare (JStr ''corrupt'') (JStr ''secret'') = Inr False"
proof -
  have f: "failing_compare (JStr ''secret'') (JStr ''corrupt'') = Inl (Error ''Illegal arguments'')"
    by (simp add: failing_compare_def)
  from verify_total [of failing_compare "JNum 5" "JStr ''corrupt''" "JStr ''corrupt''"
      "JStr ''secret''"]
    verify_total [of failing_compare "JStr ''secret''" "JStr ''corrupt''" "JStr ''corrupt''"
      "JStr ''secret''"] f
  show ?thesis by simp
qed

subsection \<open>Secure password generation\<close>

lemma push_random_fst:
  "fst (push_random t cs st) = fst st @ [cs ! (t (snd st) mod length cs)]"
  by (simp add: push_random_def randomInt_def)

lemma fill_length: "length (fst (fill t cs n st)) = length (fst st) + n"
  by (induction n arbitrary: st) (simp_all add: push_random_fst)

lemma fill_set: "set (fst st) \<subseteq> set (fst (fill t cs n st))"
proof (induction n arbitrary: st)
  case 0
  show ?case by simp
next
  case (Suc n)
  have "set (fst st) \<subseteq> set (fst (push_random t cs st))"
    by (auto simp: push_random_fst)
  also have "\<dots> \<subseteq> set (fst (fill t cs n (push_random t cs st)))"
    by (rule Suc.IH)
  finally show ?case by simp
qed

lemma shuffle_length_set:
  "m < length (fst st) \<Longrightarrow>
     length (fst (shuffle t m st)) = length (fst st)
     \<and> set (fst (shuffle t m st)) = set (fst st)"
proof (induction m arbitrary: st)
  case 0
  show ?case by simp
next
  case (Suc m)
  let ?xs = "fst st"
  let ?j = "randomInt t (snd st) (Suc m + 1)"
  let ?ys = "?xs[Suc m := ?xs ! ?j, ?j := ?xs ! Suc m]"
  have j: "?j < length ?xs"
  proof -
    have "?j < Suc m + 1" by (simp add: randomInt_def)
    with Suc.prems show ?thesis by linarith
  qed
  have len: "length ?ys = length ?xs" by simp
  have st: "set ?ys = set ?xs" using Suc.prems j by (rule set_swap)
  have m: "m < length (fst (?ys, Suc (snd st)))" using Suc.prems by simp
  from Suc.IH [OF m] len st show ?case by (simp add: Let_def)
qed

lemma nth_mod_mem: "cs \<noteq> [] \<Longrightarrow> cs ! (k mod length cs) \<in> set cs"
  by simp

lemma required_chars_default:
  "fst (required_chars t default_options) =
     [lowerChars True ! (t 0 mod length (lowerChars True)),
      upperChars True ! (t 1 mod length (upperChars True)),
      numberChars True ! (t 2 mod length (numberChars True)),
      specialChars True ! (t 3 mod length (specialChars True))]"
  by (simp add: required_chars_def default_options_def Let_def push_random_def randomInt_def
      numeral_2_eq_2 numeral_3_eq_3)

lemma lower_pick: "lowerChars True ! (k mod length (lowerChars True)) \<in> set lower_class"
proof -
  have "lowerChars True \<noteq> []" by (simp add: lowerChars_def)
  then have "lowerChars True ! (k mod length (lowerChars True)) \<in> set (lowerChars True)"
    by (rule nth_mod_mem)
  moreover have "set (lowerChars True) \<subseteq> set lower_class"
    by (simp add: lowerChars_def lower_class_def)
  ultimately show ?thesis by blast
qed

lemma upper_pick: "upperChars True ! (k mod length (upperChars True)) \<in> set upper_class"
proof -
  have "upperChars True \<noteq> []" by (simp add: upperChars_def)
  then have "upperChars True ! (k mod length (upperChars True)) \<in> set (upperChars True)"
    by (rule nth_mod_mem)
  moreover have "set (upperChars True) \<subseteq> set upper_class"
    by (simp add: upperChars_def upper_class_def)
  ultimately show ?thesis by blast
qed

lemma number_pick: "numberChars True ! (k mod length (numberChars True)) \<in> set digit_class"
proof -
  have "numberChars True \<noteq> []" by (simp add: numberChars_def)
  then have "numberChars True ! (k mod length (numberChars True)) \<in> set (numberChars True)"
    by (rule nth_mod_mem)
  moreover have "set (numberChars True) \<subseteq> set digit_class"
    by (simp add: numberChars_def digit_class_def)
  ultimately show ?thesis by blast
qed

lemma test_class_iff: "test_class cls s = (\<exists>c \<in> set s. c \<in> set cls)"
  by (simp add: test_class_def list_ex_iff)

lemma generate_default_shape:
  "\<exists>pw. generateSecurePassword default_options t = Inr pw \<and> length pw = 16
     \<and> test_class lower_class pw \<and> test_class upper_class pw \<and> test_class digit_class pw"
proof -
  let ?req = "required_chars t default_options"
  let ?cs = "build_charset default_options"
  let ?filled = "fill t ?cs (16 - length (fst ?req)) ?req"
  let ?pw = "fst (shuffle t (length (fst ?filled) - 1) ?filled)"
  have cs: "?cs \<noteq> []"
    by (simp add: build_charset_def class_charset_def default_options_def lowerChars_def)
  have gen: "generateSecurePassword default_options t = Inr ?pw"
    using cs by (simp add: generateSecurePassword_def Let_def minPasswordLength_def
        maxPasswordLength_def default_options_def)
  have req_len: "length (fst ?req) = 4" by (simp add: required_chars_default)
  have filled_len: "length (fst ?filled) = 16" by (simp add: fill_length req_len)
  have "length (fst ?filled) - 1 < length (fst ?filled)" by (simp add: filled_len)
  from shuffle_length_set [OF this]
  have pw_len: "length ?pw = 16" and pw_set: "set ?pw = set (fst ?filled)"
    by (simp_all add: filled_len)
  have sub: "set (fst ?req) \<subseteq> set ?pw" unfolding pw_set by (rule fill_set)
  have "lowerChars True ! (t 0 mod length (lowerChars True)) \<in> set (fst ?req)"
    by (simp add: required_chars_default)
  with sub lower_pick have l: "test_class lower_class ?pw"
    unfolding test_class_iff by blast
  have "upperChars True ! (t 1 mod length (upperChars True)) \<in> set (fst ?req)"
    by (simp add: required_chars_default)
  with sub upper_pick have u: "test_class upper_class ?pw"
    unfolding test_class_iff by blast
  have "numberChars True ! (t 2 mod length (numberChars True)) \<in> set (fst ?req)"
    by (simp add: required_chars_default)
  with sub number_pick have d: "test_class digit_class ?pw"
    unfolding test_class_iff by blast
  from gen pw_len l u d show ?thesis by blast
qed

lemma no_user_info_penalties:
  "\<not> email_penalty p no_user_info"
  "\<not> name_penalty p (ui_firstName no_user_info)"
  "\<not> name_penalty p (ui_lastName no_user_info)"
  by (simp_all add: email_penalty_def name_penalty_def no_user_info_def)

lemma sixteen_char_result:
  assumes "length pw = 16" "test_class lower_class pw" "test_class upper_class pw"
    "test_class digit_class pw"
  shows "85 \<le> score (validatePasswordStrength (JStr pw) no_user_info)
     \<and> isValid (validatePasswordStrength (JStr pw) no_user_info) = (\<not> forbidden pw)"
proof -
  from assms(1) have ne: "pw \<noteq> []" by auto
  have e: "errors (validate_string pw no_user_info) =
      (if forbidden pw then [''Password contains forbidden patterns or is too common'']
       else [])"
    using assms by (simp add: validate_string_errors minLength_def maxLength_def)
  have s: "85 \<le> score (validate_string pw no_user_info)"
    using assms by (simp add: validate_string_score minLength_def no_user_info_penalties)
  show ?thesis
    using e s by (simp add: nonempty_truthy [OF ne] validate_string_valid_iff)
qed

text \<open>
  Claim C8, as amended.  For every random outcome, generation with length 16 and the
  default options returns a password of 16 characters whose strength score is at least
  85, and the strength validation accepts it exactly when it matches no forbidden
  pattern.
\<close>

theorem generated_password_validity:
  "\<exists>pw. generateSecurePassword default_options t = Inr pw \<and> length pw = 16
     \<and> 85 \<le> score (validatePasswordStrength (JStr pw) no_user_info)
     \<and> isValid (validatePasswordStrength (JStr pw) no_user_info) = (\<not> forbidden pw)"
proof -
  from generate_default_shape [of t] obtain pw where
    g: "generateSecurePassword default_options t = Inr pw" and
    p: "length pw = 16" "test_class lower_class pw" "test_class upper_class pw"
       "test_class digit_class pw"
    by blast
  from sixteen_char_result [OF p] g p(1) show ?thesis by blast
qed

theorem generated_password_validity_witness:
  "generateSecurePassword default_options (\<lambda>k. 7 * k + 3) = Inr ''dMJh^S-ry;8aZF3>''
   \<and> length ''dMJh^S-ry;8aZF3>'' = 16
   \<and> 85 \<le> score (validatePasswordStrength (JStr ''dMJh^S-ry;8aZF3>'') no_user_info)
   \<and> \<not> forbidden ''dMJh^S-ry;8aZF3>''
   \<and> isValid (validatePasswordStrength (JStr ''dMJh^S-ry;8aZF3>'') no_user_info)"
proof -
  have g: "generateSecurePassword default_options (\<lambda>k. 7 * k + 3) = Inr ''dMJh^S-ry;8aZF3>''"
    by code_simp
  have f: "\<not> forbidden ''dMJh^S-ry;8aZF3>''" by code_simp
  from generated_password_validity [of "\<lambda>k. 7 * k + 3"] g f show ?thesis by auto
qed

text \<open>
  The claim as stated fails: when every draw returns 0 the generated password is
  \<open>A2!aaaaaaaaaaaaa\<close>, which repeats a character four times in a row and is rejected.
\<close>

theorem generated_password_counterexample:
  "generateSecurePassword default_options (\<lambda>k. 0) = Inr ''A2!aaaaaaaaaaaaa''
   \<and> \<not> isValid (validatePasswordStrength (JStr ''A2!aaaaaaaaaaaaa'') no_user_info)"
  by code_simp

section \<open>Properties of sessions\<close>

subsection \<open>The store\<close>

lemma find_put_same: "a_id a = i \<Longrightarrow> find (\<lambda>x. a_id x = i) (put a c) = Some a"
  by (induction c) auto

lemma find_put_other:
  "a_id a \<noteq> i \<Longrightarrow> find (\<lambda>x. a_id x = i) (put a c) = find (\<lambda>x. a_id x = i) c"
  by (induction c) auto


lemma findById_SomeD:
  assumes "findById castable M s i = Inr (Some user)"
  shows "d_model user = M" "d_modified user = {}"
    "find (\<lambda>a. a_id a = i) (collection M s) = Some (d_fields user)"
    "a_id (d_fields user) = i" "castable i"
proof -
  from assms show c: "castable i" by (auto simp: findById_def split: if_splits)
  with assms obtain a where a: "find (\<lambda>a. a_id a = i) (collection M s) = Some a"
    and u: "user = loaded M a"
    by (auto simp: findById_def)
  from u show "d_model user = M" "d_modified user = {}" by (simp_all add: loaded_def)
  from a u show "find (\<lambda>a. a_id a = i) (collection M s) = Some (d_fields user)"
    by (simp add: loaded_def)
  from a have "a_id a = i" by (auto simp: find_Some_iff)
  with u show "a_id (d_fields user) = i" by (simp add: loaded_def)
qed

lemma collection_write_same: "collection M (write_record M a s) = put a (collection M s)"
  by (cases M) (simp_all add: collection_def write_record_def)


lemma findById_write_same:
  "castable i \<Longrightarrow> a_id a = i \<Longrightarrow>
     findById castable M (write_record M a s) i = Inr (Some (loaded M a))"
  by (simp add: findById_def collection_write_same find_put_same)


text \<open>What the hooks of a save leave alone.\<close>

lemma timestampsPreSave_frame:
  "d_model (timestampsPreSave today d) = d_model d"
  "d_modified (timestampsPreSave today d) = d_modified d"
  "a_id (d_fields (timestampsPreSave today d)) = a_id (d_fields d)"
  "a_sessionId (d_fields (timestampsPreSave today d)) = a_sessionId (d_fields d)"
  "outside_session_fields (d_fields (timestampsPreSave today d))
     = outside_session_fields (d_fields d)"
  by (simp_all add: timestampsPreSave_def outside_session_fields_def)

lemma pre_save_second_frame:
  "d_model (pre_save_second today d) = d_model d"
  "a_id (d_fields (pre_save_second today d)) = a_id (d_fields d)"
  "a_sessionId (d_fields (pre_save_second today d)) = a_sessionId (d_fields d)"
  "outside_session_fields (d_fields (pre_save_second today d))
     = outside_session_fields (d_fields d)"
  by (simp_all add: pre_save_second_def calculateProfileCompletion_def Let_def
      outside_session_fields_def split: model_name.splits)

lemma set_sessionId_frame:
  "d_model (set_sessionId v d) = d_model d"
  "P_passwordHash \<in> d_modified (set_sessionId v d) \<longleftrightarrow> P_passwordHash \<in> d_modified d"
  "a_id (d_fields (set_sessionId v d)) = a_id (d_fields d)"
  "a_sessionId (d_fields (set_sessionId v d)) = v"
  "outside_session_fields (d_fields (set_sessionId v d)) = outside_session_fields (d_fields d)"
  by (simp_all add: set_sessionId_def outside_session_fields_def)


lemma pre_save_hash_unmodified:
  "P_passwordHash \<notin> d_modified d \<Longrightarrow> pre_save_hash hash today d = Inr d"
  by (simp add: pre_save_hash_def)

lemma save_unmodified:
  "P_passwordHash \<notin> d_modified d \<Longrightarrow>
     save hash today s d =
       Inr (loaded (d_model d) (d_fields (pre_save_second today (timestampsPreSave today d))),
            write_record (d_model d)
              (d_fields (pre_save_second today (timestampsPreSave today d))) s)"
  by (simp add: save_def validateBeforeSave_def pre_save_hash_unmodified
      timestampsPreSave_frame pre_save_second_frame loaded_def Let_def)

text \<open>Setting the session identifier of a loaded document and saving it.\<close>

lemma save_session:
  assumes "findById castable M s i = Inr (Some user)"
  shows "\<exists>a'. save hash today s (set_sessionId v user) = Inr (loaded M a', write_record M a' s)
     \<and> a_id a' = i \<and> a_sessionId a' = v
     \<and> outside_session_fields a' = outside_session_fields (d_fields user)"
proof -
  let ?d = "set_sessionId v user"
  let ?a = "d_fields (pre_save_second today (timestampsPreSave today ?d))"
  from findById_SomeD [OF assms] have m: "P_passwordHash \<notin> d_modified ?d"
    and M: "d_model ?d = M" and i: "a_id (d_fields user) = i"
    by (simp_all add: set_sessionId_frame)
  from save_unmodified [OF m] M
  have "save hash today s ?d = Inr (loaded M ?a, write_record M ?a s)" by simp
  moreover from i have "a_id ?a = i"
    by (simp add: pre_save_second_frame timestampsPreSave_frame set_sessionId_frame)
  moreover have "a_sessionId ?a = v"
    by (simp add: pre_save_second_frame timestampsPreSave_frame set_sessionId_frame)
  moreover have "outside_session_fields ?a = outside_session_fields (d_fields user)"
    by (simp add: pre_save_second_frame timestampsPreSave_frame set_sessionId_frame)
  ultimately show ?thesis by blast
qed

subsection \<open>Refresh\<close>

lemma jwt_verify_InrD:
  "jwt_verify dec now tok secret opts = Inr d \<Longrightarrow>
     tok \<noteq> [] \<and> secret \<noteq> [] \<and>
     (\<exists>j. dec tok = Some j \<and> d = j_payload j \<and> j_secret j = secret
        \<and> \<not> not_yet_valid now j \<and> \<not> expired now j
        \<and> \<not> option_mismatch (vo_audience opts) (j_audience j)
        \<and> \<not> option_mismatch (vo_issuer opts) (j_issuer j))"
  by (auto simp: jwt_verify_def split: option.splits if_splits)

lemma verifyRefreshToken_InrD:
  "verifyRefreshToken cfg dec now tok = Inr d \<Longrightarrow> \<exists>j. dec tok = Some j \<and> d = j_payload j"
  by (auto simp: verifyRefreshToken_def try_catch_def dest!: jwt_verify_InrD
      split: sum.splits if_splits)

lemma refresh_success:
  assumes "refreshTokens cfg dec castable now today nonce hash s tok = Inr (pair, s')"
  shows "\<exists>decoded user a'.
     verifyRefreshToken cfg dec now tok = Inr decoded
     \<and> findById castable (if p_type decoded = Some ''admin'' then Admin else User) s
         (p_id decoded) = Inr (Some user)
     \<and> a_sessionId (d_fields user) = p_sessionId decoded
     \<and> s' = write_record (if p_type decoded = Some ''admin'' then Admin else User) a' s
     \<and> a_id a' = p_id decoded \<and> a_sessionId a' = Some nonce
     \<and> outside_session_fields a' = outside_session_fields (d_fields user)"
proof -
  from assms obtain decoded where v: "verifyRefreshToken cfg dec now tok = Inr decoded"
    by (auto simp: refreshTokens_def split: sum.splits)
  let ?M = "if p_type decoded = Some ''admin'' then Admin else User"
  from assms v obtain user where f: "findById castable ?M s (p_id decoded) = Inr (Some user)"
    by (auto simp: refreshTokens_def Let_def split: sum.splits option.splits if_splits)
  from assms v f have sid: "a_sessionId (d_fields user) = p_sessionId decoded"
    by (auto simp: refreshTokens_def Let_def split: if_splits)
  from save_session [OF f, of hash today "Some nonce"] obtain a' where
    sv: "save hash today s (set_sessionId (Some nonce) user)
           = Inr (loaded ?M a', write_record ?M a' s)"
    and a': "a_id a' = p_id decoded" "a_sessionId a' = Some nonce"
      "outside_session_fields a' = outside_session_fields (d_fields user)"
    by blast
  from assms v f sid sv have "s' = write_record ?M a' s"
    by (auto simp: refreshTokens_def Let_def generateSessionId_def split: if_splits)
  with v f sid a' show ?thesis by blast
qed

lemma refresh_mismatch:
  assumes "verifyRefreshToken cfg dec now tok = Inr decoded"
    "findById castable (if p_type decoded = Some ''admin'' then Admin else User) s (p_id decoded)
       = Inr (Some user)"
    "a_sessionId (d_fields user) \<noteq> p_sessionId decoded"
  shows "refreshTokens cfg dec castable now today nonce hash s tok
     = Inl (Error ''SESSION_INVALID'')"
  using assms by (simp add: refreshTokens_def Let_def)

text \<open>Unfolding the example data and the token and store operations evaluates them at
  concrete inputs.\<close>

lemmas example_defs = example_cfg_def alice_def example_store_def example_world_def
  alice_tokens_def early_token_def odd_id_token_def alice_verification_token_def
  example_dec_def failing_compare_def wrong_password_compare_def example_hash_def
  example_profile_def example_completion_def alice_rotated_def alice_logged_out_def

lemmas token_defs = generateTokens_def jwt_sign_def session_payload_def users_sign_options_def
  users_verify_options_def reset_verify_options_def no_verify_options_def
  generateResetToken_def reset_payload_def generateVerificationToken_def
  verification_payload_def modelName_lower_def loaded_def
  jwt_verify_def not_yet_valid_def expired_def option_mismatch_def
  JsonWebTokenError_def TokenExpiredError_def NotBeforeError_def named_error_def Error_def

lemmas store_defs = findById_def findByEmail_def collection_def save_def pre_save_hash_def
  validateBeforeSave_def timestampsPreSave_def pre_save_second_def
  calculateProfileCompletion_def write_record_def set_sessionId_def set_lastLoginAt_def
  generateSessionId_def CastError_def

lemma example_castable:
  "hex24 ''507f1f77bcf86cd799439011''" "\<not> hex24 ''test123''"
  by (simp_all add: hex24_def)

text \<open>
  Claim C1.  When the refresh token verifies and its account exists, refresh fails with
  \<open>SESSION_INVALID\<close> if the stored session identifier differs from the one embedded in
  the token.  After a successful refresh the stored session identifier is the newly
  generated value; presenting the same refresh token again, while it still verifies,
  fails with \<open>SESSION_INVALID\<close> whenever the new value differs from the identifier in
  the token.
\<close>

theorem refresh_rotation:
  "(verifyRefreshToken cfg dec now tok = Inr decoded
      \<and> findById castable (if p_type decoded = Some ''admin'' then Admin else User) s
          (p_id decoded) = Inr (Some user)
      \<and> a_sessionId (d_fields user) \<noteq> p_sessionId decoded
    \<longrightarrow> refreshTokens cfg dec castable now today nonce hash s tok
          = Inl (Error ''SESSION_INVALID''))
   \<and> (refreshTokens cfg dec castable now today nonce hash s tok = Inr (pair, s')
    \<longrightarrow> (\<exists>decoded' user'.
           verifyRefreshToken cfg dec now tok = Inr decoded'
           \<and> findById castable (if p_type decoded' = Some ''admin'' then Admin else User) s'
                (p_id decoded') = Inr (Some user')
           \<and> a_sessionId (d_fields user') = Some nonce
           \<and> (p_sessionId decoded' \<noteq> Some nonce
                \<and> verifyRefreshToken cfg dec later tok = Inr decoded'
              \<longrightarrow> refreshTokens cfg dec castable later today_b nonce_b hash_b s' tok
                    = Inl (Error ''SESSION_INVALID''))))"
proof (intro conjI impI)
  assume "verifyRefreshToken cfg dec now tok = Inr decoded
      \<and> findById castable (if p_type decoded = Some ''admin'' then Admin else User) s
          (p_id decoded) = Inr (Some user)
      \<and> a_sessionId (d_fields user) \<noteq> p_sessionId decoded"
  then show "refreshTokens cfg dec castable now today nonce hash s tok
      = Inl (Error ''SESSION_INVALID'')"
    by (blast intro: refresh_mismatch)
next
  assume ok: "refreshTokens cfg dec castable now today nonce hash s tok = Inr (pair, s')"
  from refresh_success [OF ok] obtain decoded' :: payload and user and a' where
    v: "verifyRefreshToken cfg dec now tok = Inr decoded'" and
    f: "findById castable (if p_type decoded' = Some ''admin'' then Admin else User) s
          (p_id decoded') = Inr (Some user)" and
    s': "s' = write_record (if p_type decoded' = Some ''admin'' then Admin else User) a' s" and
    a': "a_id a' = p_id decoded'" "a_sessionId a' = Some nonce"
    by blast
  let ?M = "if p_type decoded' = Some ''admin'' then Admin else User"
  from findById_SomeD(5) [OF f] a'(1)
  have f': "findById castable ?M s' (p_id decoded') = Inr (Some (loaded ?M a'))"
    unfolding s' by (rule findById_write_same)
  have sid: "a_sessionId (d_fields (loaded ?M a')) = Some nonce"
    using a'(2) by (simp add: loaded_def)
  have replay: "refreshTokens cfg dec castable later today_b nonce_b hash_b s' tok
      = Inl (Error ''SESSION_INVALID'')"
    if "p_sessionId decoded' \<noteq> Some nonce \<and> verifyRefreshToken cfg dec later tok = Inr decoded'"
  proof -
    from that sid have "a_sessionId (d_fields (loaded ?M a')) \<noteq> p_sessionId decoded'"
      by metis
    with that f' show ?thesis by (blast intro: refresh_mismatch)
  qed
  from v f' sid replay
  show "\<exists>decoded' user'.
           verifyRefreshToken cfg dec now tok = Inr decoded'
           \<and> findById castable (if p_type decoded' = Some ''admin'' then Admin else User) s'
                (p_id decoded') = Inr (Some user')
           \<and> a_sessionId (d_fields user') = Some nonce
           \<and> (p_sessionId decoded' \<noteq> Some nonce
                \<and> verifyRefreshToken cfg dec later tok = Inr decoded'
              \<longrightarrow> refreshTokens cfg dec castable later today_b nonce_b hash_b s' tok
                    = Inl (Error ''SESSION_INVALID''))"
    by blast
qed

lemma example_verify_refresh:
  "now < 605800 \<Longrightarrow>
   verifyRefreshToken example_cfg example_dec now ''refresh-1''
     = Inr ((session_payload (loaded User alice))\<lparr>p_tokenType := Some ''refresh''\<rparr>)"
  by (simp add: verifyRefreshToken_def try_catch_def example_defs token_defs Let_def)

lemma example_findById:
  "findById hex24 User example_store ''507f1f77bcf86cd799439011'' = Inr (Some (loaded User alice))"
  "findById hex24 User \<lparr>users = [alice_rotated], admins = []\<rparr> ''507f1f77bcf86cd799439011''
     = Inr (Some (loaded User alice_rotated))"
  "findById hex24 User \<lparr>users = [alice_logged_out], admins = []\<rparr> ''507f1f77bcf86cd799439011''
     = Inr (Some (loaded User alice_logged_out))"
  "findById hex24 User \<lparr>users = [], admins = []\<rparr> ''507f1f77bcf86cd799439011'' = Inr None"
  "findById hex24 User example_store ''test123'' = Inl CastError"
  by (simp_all add: findById_def example_castable collection_def example_store_def alice_def
      alice_rotated_def alice_logged_out_def)

lemma example_save:
  "save example_hash 7 example_store (set_sessionId (Some ''session-2'') (loaded User alice))
     = Inr (loaded User alice_rotated, \<lparr>users = [alice_rotated], admins = []\<rparr>)"
  "save example_hash 7 example_store (set_sessionId None (loaded User alice))
     = Inr (loaded User alice_logged_out, \<lparr>users = [alice_logged_out], admins = []\<rparr>)"
  by (simp_all add: example_defs store_defs loaded_def Let_def)

lemma example_refresh:
  "refreshTokens example_cfg example_dec hex24 1100 7 ''session-2'' example_hash example_store
       ''refresh-1''
     = Inr (generateTokens example_cfg 1100 (loaded User alice_rotated) False,
            \<lparr>users = [alice_rotated], admins = []\<rparr>)"
proof -
  have p: "p_type ((session_payload (loaded User alice))\<lparr>p_tokenType := Some ''refresh''\<rparr>)
      = Some ''user''"
    "p_id ((session_payload (loaded User alice))\<lparr>p_tokenType := Some ''refresh''\<rparr>)
      = ''507f1f77bcf86cd799439011''"
    "p_sessionId ((session_payload (loaded User alice))\<lparr>p_tokenType := Some ''refresh''\<rparr>)
      = a_sessionId (d_fields (loaded User alice))"
    by (simp_all add: session_payload_def loaded_def alice_def modelName_lower_def)
  show ?thesis
    by (simp add: refreshTokens_def example_verify_refresh Let_def p example_findById
        generateSessionId_def example_save)
qed

theorem refresh_rotation_witness:
  "refreshTokens example_cfg example_dec hex24 1100 7 ''session-2'' example_hash example_store
       ''refresh-1''
     = Inr (generateTokens example_cfg 1100 (loaded User alice_rotated) False,
            \<lparr>users = [alice_rotated], admins = []\<rparr>)
   \<and> refreshTokens example_cfg example_dec hex24 1200 8 ''session-3'' example_hash
        \<lparr>users = [alice_rotated], admins = []\<rparr> ''refresh-1''
     = Inl (Error ''SESSION_INVALID'')"
proof -
  let ?s' = "\<lparr>users = [alice_rotated], admins = []\<rparr>"
  let ?p = "(session_payload (loaded User alice))\<lparr>p_tokenType := Some ''refresh''\<rparr>"
  note first = example_refresh
  have v1: "verifyRefreshToken example_cfg example_dec 1100 ''refresh-1'' = Inr ?p"
    and v2: "verifyRefreshToken example_cfg example_dec 1200 ''refresh-1'' = Inr ?p"
    by (simp_all add: example_verify_refresh)
  have fresh: "p_sessionId ?p \<noteq> Some ''session-2''"
    by (simp add: session_payload_def loaded_def alice_def)
  from refresh_rotation [where cfg = example_cfg and dec = example_dec and castable = hex24
      and now = 1100 and today = 7 and tok = "''refresh-1''" and nonce = "''session-2''"
      and hash = example_hash and s = example_store and s' = ?s' and later = 1200
      and today_b = 8 and nonce_b = "''session-3''" and hash_b = example_hash] first v1 v2 fresh
  have "refreshTokens example_cfg example_dec hex24 1200 8 ''session-3'' example_hash ?s'
      ''refresh-1'' = Inl (Error ''SESSION_INVALID'')"
    by auto
  with first show ?thesis by blast
qed

subsection \<open>Logout\<close>

lemma gate_verified:
  assumes "jwt_verify dec now wire (accessTokenSecret cfg) no_verify_options = Inr decoded"
  shows "authenticateToken cfg dec castable now s (Some (''Bearer '' @ wire)) =
     (case findById castable User s (p_id decoded) of
        Inl error \<Rightarrow> gate_catch error
      | Inr None \<Rightarrow> Respond 401 ''USER_NOT_FOUND'' ''User not found''
      | Inr (Some user) \<Rightarrow>
          if a_sessionId (d_fields user) \<noteq> p_sessionId decoded
          then Respond 401 ''SESSION_INVALID'' ''Session has been invalidated''
          else Next user)"
  using assms by (simp add: authenticateToken_def startsWith_def)

lemma issued_access_token_verifies:
  assumes "wire \<noteq> []" "dec wire = Some (accessToken (generateTokens cfg issued user rememberMe))"
    "accessTokenSecret cfg \<noteq> []" "now < issued + accessTokenExpiry cfg"
  shows "jwt_verify dec now wire (accessTokenSecret cfg) no_verify_options
     = Inr (session_payload user)"
  using assms
  by (simp add: jwt_verify_def generateTokens_def Let_def jwt_sign_def users_sign_options_def
      not_yet_valid_def expired_def option_mismatch_def no_verify_options_def)

lemma revoke_found:
  assumes "findById castable (if userType = ''admin'' then Admin else User) s uid
     = Inr (Some user)"
  shows "\<exists>a'. revokeSession castable hash today s uid userType =
       (True, write_record (if userType = ''admin'' then Admin else User) a' s)
     \<and> a_id a' = uid \<and> a_sessionId a' = None
     \<and> outside_session_fields a' = outside_session_fields (d_fields user)"
proof -
  let ?M = "if userType = ''admin'' then Admin else User"
  from save_session [OF assms, of hash today None] obtain a' where
    sv: "save hash today s (set_sessionId None user) = Inr (loaded ?M a', write_record ?M a' s)"
    and a': "a_id a' = uid" "a_sessionId a' = None"
      "outside_session_fields a' = outside_session_fields (d_fields user)"
    by blast
  from assms sv have "revokeSession castable hash today s uid userType
      = (True, write_record ?M a' s)"
    by (simp add: revokeSession_def Let_def)
  with a' show ?thesis by blast
qed



text \<open>
  Claim C3.  Take an account with an active session and the access token issued for it,
  not yet expired.  Before logout the middleware attaches the account.  Logout succeeds
  and clears the stored session identifier, and the same token presented afterwards, at
  the same time, is answered with \<open>SESSION_INVALID\<close>.
\<close>

theorem logout_invalidates_access_token:
  "findById castable User s uid = Inr (Some user) \<and> a_sessionId (d_fields user) = Some sid
     \<and> wire \<noteq> [] \<and> dec wire = Some (accessToken (generateTokens cfg issued user rememberMe))
     \<and> accessTokenSecret cfg \<noteq> [] \<and> now < issued + accessTokenExpiry cfg
   \<longrightarrow> authenticateToken cfg dec castable now s (Some (''Bearer '' @ wire)) = Next user
       \<and> fst (revokeSession castable hash today s uid ''user'')
       \<and> (\<exists>user'. findById castable User (snd (revokeSession castable hash today s uid ''user''))
                     uid = Inr (Some user')
             \<and> a_sessionId (d_fields user') = None)
       \<and> authenticateToken cfg dec castable now
            (snd (revokeSession castable hash today s uid ''user'')) (Some (''Bearer '' @ wire))
          = Respond 401 ''SESSION_INVALID'' ''Session has been invalidated''"
proof (intro impI)
  assume h: "findById castable User s uid = Inr (Some user)
     \<and> a_sessionId (d_fields user) = Some sid
     \<and> wire \<noteq> [] \<and> dec wire = Some (accessToken (generateTokens cfg issued user rememberMe))
     \<and> accessTokenSecret cfg \<noteq> [] \<and> now < issued + accessTokenExpiry cfg"
  then have f: "findById castable User s uid = Inr (Some user)"
    and sid: "a_sessionId (d_fields user) = Some sid"
    by simp_all
  from h have "wire \<noteq> []"
    "dec wire = Some (accessToken (generateTokens cfg issued user rememberMe))"
    "accessTokenSecret cfg \<noteq> []" "now < issued + accessTokenExpiry cfg"
    by blast+
  then have v: "jwt_verify dec now wire (accessTokenSecret cfg) no_verify_options
     = Inr (session_payload user)"
    by (rule issued_access_token_verifies)
  from findById_SomeD(4) [OF f] have pid: "p_id (session_payload user) = uid"
    by (simp add: session_payload_def)
  have psid: "p_sessionId (session_payload user) = Some sid"
    using sid by (simp add: session_payload_def)
  have before: "authenticateToken cfg dec castable now s (Some (''Bearer '' @ wire)) = Next user"
    by (subst gate_verified [OF v]) (simp add: pid f psid sid)
  from f have "findById castable (if ''user'' = ''admin'' then Admin else User) s uid
      = Inr (Some user)"
    by simp
  from revoke_found [OF this, of hash today] obtain a' where
    r: "revokeSession castable hash today s uid ''user'' = (True, write_record User a' s)"
    and a': "a_id a' = uid" "a_sessionId a' = None"
    by auto
  let ?s' = "write_record User a' s"
  from findById_SomeD(5) [OF f] a'(1)
  have f': "findById castable User ?s' uid = Inr (Some (loaded User a'))"
    by (rule findById_write_same)
  have after: "authenticateToken cfg dec castable now ?s' (Some (''Bearer '' @ wire))
      = Respond 401 ''SESSION_INVALID'' ''Session has been invalidated''"
    by (subst gate_verified [OF v]) (simp add: pid f' psid a'(2) loaded_def)
  from before r f' after a'(2)
  show "authenticateToken cfg dec castable now s (Some (''Bearer '' @ wire)) = Next user
       \<and> fst (revokeSession castable hash today s uid ''user'')
       \<and> (\<exists>user'. findById castable User (snd (revokeSession castable hash today s uid ''user''))
                     uid = Inr (Some user')
             \<and> a_sessionId (d_fields user') = None)
       \<and> authenticateToken cfg dec castable now
            (snd (revokeSession castable hash today s uid ''user'')) (Some (''Bearer '' @ wire))
          = Respond 401 ''SESSION_INVALID'' ''Session has been invalidated''"
    by (simp add: loaded_def)
qed

theorem logout_invalidates_access_token_witness:
  "findById hex24 User example_store ''507f1f77bcf86cd799439011'' = Inr (Some (loaded User alice))
   \<and> a_sessionId (d_fields (loaded User alice)) = Some ''session-1''
   \<and> example_dec ''access-1''
       = Some (accessToken (generateTokens example_cfg 1000 (loaded User alice) False))
   \<and> (1100 :: nat) < 1000 + accessTokenExpiry example_cfg
   \<and> authenticateToken example_cfg example_dec hex24 1100 example_store
        (Some ''Bearer access-1'')
       = Next (loaded User alice)
   \<and> authenticateToken example_cfg example_dec hex24 1100
        (snd (revokeSession hex24 example_hash 7 example_store ''507f1f77bcf86cd799439011''
                ''user''))
        (Some ''Bearer access-1'')
       = Respond 401 ''SESSION_INVALID'' ''Session has been invalidated''"
proof -
  have h: "findById hex24 User example_store ''507f1f77bcf86cd799439011''
       = Inr (Some (loaded User alice))
   \<and> a_sessionId (d_fields (loaded User alice)) = Some ''session-1''
   \<and> ''access-1'' \<noteq> []
   \<and> example_dec ''access-1''
       = Some (accessToken (generateTokens example_cfg 1000 (loaded User alice) False))
   \<and> accessTokenSecret example_cfg \<noteq> []
   \<and> (1100 :: nat) < 1000 + accessTokenExpiry example_cfg"
    by (simp add: example_findById) (simp add: example_defs loaded_def)
  from logout_invalidates_access_token [where s = example_store
      and uid = "''507f1f77bcf86cd799439011''" and castable = hex24
      and user = "loaded User alice" and sid = "''session-1''" and wire = "''access-1''"
      and dec = example_dec and cfg = example_cfg and issued = 1000 and rememberMe = False
      and now = 1100 and hash = example_hash and today = 7] h
  show ?thesis by simp
qed

subsection \<open>What the session operations write\<close>



lemma collection_simps: "collection User s = users s" "collection Admin s = admins s"
  by (simp_all add: collection_def)




subsection \<open>The middleware\<close>

lemma gate_no_bearer:
  "no_bearer authorization \<Longrightarrow>
     authenticateToken cfg dec castable now s authorization
       = Respond 401 ''UNAUTHORIZED'' ''Authentication token required''"
  by (auto simp: authenticateToken_def no_bearer_def split: option.splits)

lemma gate_bearer:
  "\<not> no_bearer (Some header) \<Longrightarrow>
     authenticateToken cfg dec castable now s (Some header) =
       (case jwt_verify dec now (drop 7 header) (accessTokenSecret cfg) no_verify_options of
          Inl error \<Rightarrow> gate_catch error
        | Inr decoded \<Rightarrow>
            (case findById castable User s (p_id decoded) of
               Inl error \<Rightarrow> gate_catch error
             | Inr None \<Rightarrow> Respond 401 ''USER_NOT_FOUND'' ''User not found''
             | Inr (Some user) \<Rightarrow>
                 (if a_sessionId (d_fields user) \<noteq> p_sessionId decoded
                  then Respond 401 ''SESSION_INVALID'' ''Session has been invalidated''
                  else Next user)))"
  by (simp add: authenticateToken_def no_bearer_def)

lemma jwt_verify_invalid:
  "token = [] \<or> dec token = None \<or> secret = []
     \<or> (\<exists>j. dec token = Some j \<and> j_secret j \<noteq> secret) \<Longrightarrow>
   \<exists>msg. jwt_verify dec now token secret opts = Inl (JsonWebTokenError msg)"
  by (auto simp: jwt_verify_def split: option.splits)

lemma gate_catch_simps:
  "gate_catch (JsonWebTokenError msg) = Respond 401 ''INVALID_TOKEN'' ''Invalid authentication token''"
  "gate_catch TokenExpiredError = Respond 401 ''TOKEN_EXPIRED'' ''Authentication token has expired''"
  "gate_catch NotBeforeError = NextError NotBeforeError"
  "gate_catch CastError = NextError CastError"
  by (simp_all add: gate_catch_def JsonWebTokenError_def TokenExpiredError_def
      NotBeforeError_def CastError_def named_error_def)

lemma jwt_verify_signed:
  "token \<noteq> [] \<Longrightarrow> dec token = Some j \<Longrightarrow> secret \<noteq> [] \<Longrightarrow> j_secret j = secret \<Longrightarrow>
   jwt_verify dec now token secret no_verify_options =
     (if not_yet_valid now j then Inl NotBeforeError
      else if expired now j then Inl TokenExpiredError
      else Inr (j_payload j))"
  by (simp add: jwt_verify_def no_verify_options_def option_mismatch_def)

lemma gate_lookup:
  "(case findById castable User s i of
      Inl error \<Rightarrow> gate_catch error
    | Inr None \<Rightarrow> Respond 401 ''USER_NOT_FOUND'' ''User not found''
    | Inr (Some user) \<Rightarrow>
        (if a_sessionId (d_fields user) \<noteq> sid
         then Respond 401 ''SESSION_INVALID'' ''Session has been invalidated''
         else Next user))
   = (if \<not> castable i then NextError CastError
      else (case find (\<lambda>a. a_id a = i) (users s) of
              None \<Rightarrow> Respond 401 ''USER_NOT_FOUND'' ''User not found''
            | Some a \<Rightarrow>
                (if a_sessionId a \<noteq> sid
                 then Respond 401 ''SESSION_INVALID'' ''Session has been invalidated''
                 else Next (loaded User a))))"
  by (simp add: findById_def gate_catch_simps collection_simps loaded_def split: option.splits)

text \<open>
  Claim C2, as amended.  The middleware checks in this order.  A header that is absent,
  empty or does not start with \<open>Bearer\<close> and a space is answered with \<open>UNAUTHORIZED\<close>.
  A token that is empty, is not a signed token or is not signed with the access secret
  is answered with \<open>INVALID_TOKEN\<close>.  For a token signed with the access secret under
  the issuer and audience of access tokens: the verification error is handed to the
  error handler when the token is not yet valid; the answer is \<open>TOKEN_EXPIRED\<close> when it
  has expired; the error of the lookup is handed to the error handler when the embedded
  identity cannot be cast to an object id; the answer is \<open>USER_NOT_FOUND\<close> when no user
  has the embedded identity, and \<open>SESSION_INVALID\<close> when the stored session identifier
  differs from the embedded one; otherwise the account is attached to the request.
\<close>

theorem gate_outcomes:
  "(no_bearer authorization
    \<longrightarrow> authenticateToken cfg dec castable now s authorization
          = Respond 401 ''UNAUTHORIZED'' ''Authentication token required'')
   \<and> (\<not> no_bearer (Some header)
       \<and> (drop 7 header = [] \<or> dec (drop 7 header) = None \<or> accessTokenSecret cfg = []
            \<or> (\<exists>k. dec (drop 7 header) = Some k \<and> j_secret k \<noteq> accessTokenSecret cfg))
    \<longrightarrow> authenticateToken cfg dec castable now s (Some header)
          = Respond 401 ''INVALID_TOKEN'' ''Invalid authentication token'')
   \<and> (\<not> no_bearer (Some header) \<and> drop 7 header \<noteq> [] \<and> dec (drop 7 header) = Some j
       \<and> accessTokenSecret cfg \<noteq> [] \<and> j_secret j = accessTokenSecret cfg
       \<and> j_issuer j = Some ''uniapply-hub'' \<and> j_audience j = Some ''uniapply-hub-users''
    \<longrightarrow> authenticateToken cfg dec castable now s (Some header)
          = (if not_yet_valid now j then NextError NotBeforeError
             else if expired now j
             then Respond 401 ''TOKEN_EXPIRED'' ''Authentication token has expired''
             else if \<not> castable (p_id (j_payload j)) then NextError CastError
             else (case find (\<lambda>a. a_id a = p_id (j_payload j)) (users s) of
                     None \<Rightarrow> Respond 401 ''USER_NOT_FOUND'' ''User not found''
                   | Some a \<Rightarrow>
                       (if a_sessionId a \<noteq> p_sessionId (j_payload j)
                        then Respond 401 ''SESSION_INVALID'' ''Session has been invalidated''
                        else Next (loaded User a)))))"
proof (intro conjI impI)
  assume "no_bearer authorization"
  then show "authenticateToken cfg dec castable now s authorization
          = Respond 401 ''UNAUTHORIZED'' ''Authentication token required''"
    by (rule gate_no_bearer)
next
  assume h: "\<not> no_bearer (Some header)
       \<and> (drop 7 header = [] \<or> dec (drop 7 header) = None \<or> accessTokenSecret cfg = []
            \<or> (\<exists>k. dec (drop 7 header) = Some k \<and> j_secret k \<noteq> accessTokenSecret cfg))"
  then have "\<exists>msg. jwt_verify dec now (drop 7 header) (accessTokenSecret cfg) no_verify_options
      = Inl (JsonWebTokenError msg)"
    by (intro jwt_verify_invalid) blast
  with h show "authenticateToken cfg dec castable now s (Some header)
          = Respond 401 ''INVALID_TOKEN'' ''Invalid authentication token''"
    by (auto simp: gate_bearer gate_catch_simps)
next
  assume h: "\<not> no_bearer (Some header) \<and> drop 7 header \<noteq> [] \<and> dec (drop 7 header) = Some j
       \<and> accessTokenSecret cfg \<noteq> [] \<and> j_secret j = accessTokenSecret cfg
       \<and> j_issuer j = Some ''uniapply-hub'' \<and> j_audience j = Some ''uniapply-hub-users''"
  then have v: "jwt_verify dec now (drop 7 header) (accessTokenSecret cfg) no_verify_options =
     (if not_yet_valid now j then Inl NotBeforeError
      else if expired now j then Inl TokenExpiredError
      else Inr (j_payload j))"
    by (intro jwt_verify_signed) blast+
  from h have b: "\<not> no_bearer (Some header)" by blast
  show "authenticateToken cfg dec castable now s (Some header)
          = (if not_yet_valid now j then NextError NotBeforeError
             else if expired now j
             then Respond 401 ''TOKEN_EXPIRED'' ''Authentication token has expired''
             else if \<not> castable (p_id (j_payload j)) then NextError CastError
             else (case find (\<lambda>a. a_id a = p_id (j_payload j)) (users s) of
                     None \<Rightarrow> Respond 401 ''USER_NOT_FOUND'' ''User not found''
                   | Some a \<Rightarrow>
                       (if a_sessionId a \<noteq> p_sessionId (j_payload j)
                        then Respond 401 ''SESSION_INVALID'' ''Session has been invalidated''
                        else Next (loaded User a))))"
    by (simp add: gate_bearer [OF b] v gate_catch_simps gate_lookup)
qed

lemma example_gate:
  "authenticateToken example_cfg example_dec hex24 1100 example_store None
     = Respond 401 ''UNAUTHORIZED'' ''Authentication token required''"
  "authenticateToken example_cfg example_dec hex24 1100 example_store (Some ''Basic access-1'')
     = Respond 401 ''UNAUTHORIZED'' ''Authentication token required''"
  "authenticateToken example_cfg example_dec hex24 1100 example_store (Some ''Bearer garbage'')
     = Respond 401 ''INVALID_TOKEN'' ''Invalid authentication token''"
  "authenticateToken example_cfg example_dec hex24 1100 example_store (Some ''Bearer refresh-1'')
     = Respond 401 ''INVALID_TOKEN'' ''Invalid authentication token''"
  "authenticateToken example_cfg example_dec hex24 2000 example_store (Some ''Bearer access-1'')
     = Respond 401 ''TOKEN_EXPIRED'' ''Authentication token has expired''"
  "authenticateToken example_cfg example_dec hex24 1100 example_store (Some ''Bearer odd-1'')
     = NextError CastError"
  "authenticateToken example_cfg example_dec hex24 1100 \<lparr>users = [], admins = []\<rparr>
     (Some ''Bearer access-1'') = Respond 401 ''USER_NOT_FOUND'' ''User not found''"
  "authenticateToken example_cfg example_dec hex24 1100 \<lparr>users = [alice_rotated], admins = []\<rparr>
     (Some ''Bearer access-1'') = Respond 401 ''SESSION_INVALID'' ''Session has been invalidated''"
  "authenticateToken example_cfg example_dec hex24 1100 example_store (Some ''Bearer access-1'')
     = Next (loaded User alice)"
  by (simp_all add: authenticateToken_def startsWith_def gate_catch_def example_defs token_defs
      store_defs example_castable Let_def)

text \<open>
  Claim C2 as stated fails: a token signed with the access secret that is not yet valid
  leads to none of the five responses and to no attached account; the error is handed
  to the error handler.
\<close>

theorem gate_outcomes_counterexample:
  "authenticateToken example_cfg example_dec hex24 1100 example_store (Some ''Bearer early-1'')
     = NextError NotBeforeError"
  by (simp add: authenticateToken_def startsWith_def gate_catch_def example_defs token_defs
      store_defs Let_def)

theorem gate_outcomes_witness:
  "no_bearer (Some ''Basic access-1'')
   \<and> authenticateToken example_cfg example_dec hex24 1100 example_store
         (Some ''Basic access-1'')
       = Respond 401 ''UNAUTHORIZED'' ''Authentication token required''
   \<and> example_dec ''garbage'' = None
   \<and> authenticateToken example_cfg example_dec hex24 1100 example_store
         (Some ''Bearer garbage'')
       = Respond 401 ''INVALID_TOKEN'' ''Invalid authentication token''
   \<and> example_dec ''access-1'' = Some (accessToken alice_tokens)
   \<and> j_secret (accessToken alice_tokens) = accessTokenSecret example_cfg
   \<and> expired 2000 (accessToken alice_tokens)
   \<and> authenticateToken example_cfg example_dec hex24 2000 example_store
         (Some ''Bearer access-1'')
       = Respond 401 ''TOKEN_EXPIRED'' ''Authentication token has expired''
   \<and> example_dec ''odd-1'' = Some odd_id_token
   \<and> p_id (j_payload odd_id_token) = ''test123'' \<and> \<not> hex24 ''test123''
   \<and> authenticateToken example_cfg example_dec hex24 1100 example_store (Some ''Bearer odd-1'')
       = NextError CastError
   \<and> authenticateToken example_cfg example_dec hex24 1100 \<lparr>users = [], admins = []\<rparr>
         (Some ''Bearer access-1'')
       = Respond 401 ''USER_NOT_FOUND'' ''User not found''
   \<and> authenticateToken example_cfg example_dec hex24 1100
         \<lparr>users = [alice_rotated], admins = []\<rparr> (Some ''Bearer access-1'')
       = Respond 401 ''SESSION_INVALID'' ''Session has been invalidated''
   \<and> authenticateToken example_cfg example_dec hex24 1100 example_store
         (Some ''Bearer access-1'')
       = Next (loaded User alice)"
proof -
  let ?empty = "\<lparr>users = [], admins = []\<rparr>"
  let ?rotated = "\<lparr>users = [alice_rotated], admins = []\<rparr>"
  have h1: "no_bearer (Some ''Basic access-1'')"
    by (simp add: no_bearer_def startsWith_def)
  have h2: "\<not> no_bearer (Some ''Bearer garbage'')" "drop 7 ''Bearer garbage'' = ''garbage''"
    "example_dec ''garbage'' = None"
    by (simp_all add: no_bearer_def startsWith_def example_dec_def)
  have h3: "\<not> no_bearer (Some ''Bearer access-1'')" "drop 7 ''Bearer access-1'' = ''access-1''"
    "example_dec ''access-1'' = Some (accessToken alice_tokens)"
    "accessTokenSecret example_cfg \<noteq> []"
    "j_secret (accessToken alice_tokens) = accessTokenSecret example_cfg"
    "j_issuer (accessToken alice_tokens) = Some ''uniapply-hub''"
    "j_audience (accessToken alice_tokens) = Some ''uniapply-hub-users''"
    by (simp_all add: no_bearer_def startsWith_def example_defs token_defs Let_def)
  have h4: "\<not> no_bearer (Some ''Bearer odd-1'')" "drop 7 ''Bearer odd-1'' = ''odd-1''"
    "example_dec ''odd-1'' = Some odd_id_token"
    "j_secret odd_id_token = accessTokenSecret example_cfg"
    "j_issuer odd_id_token = Some ''uniapply-hub''"
    "j_audience odd_id_token = Some ''uniapply-hub-users''"
    "\<not> not_yet_valid 1100 odd_id_token" "\<not> expired 1100 odd_id_token"
    "p_id (j_payload odd_id_token) = ''test123''"
    by (simp_all add: no_bearer_def startsWith_def example_defs token_defs Let_def)
  have t: "\<not> not_yet_valid 1100 (accessToken alice_tokens)"
    "\<not> expired 1100 (accessToken alice_tokens)"
    "\<not> not_yet_valid 2000 (accessToken alice_tokens)"
    "expired 2000 (accessToken alice_tokens)"
    "p_id (j_payload (accessToken alice_tokens)) = ''507f1f77bcf86cd799439011''"
    "find (\<lambda>a. a_id a = ''507f1f77bcf86cd799439011'') (users example_store) = Some alice"
    "find (\<lambda>a. a_id a = ''507f1f77bcf86cd799439011'') (users ?empty) = None"
    "find (\<lambda>a. a_id a = ''507f1f77bcf86cd799439011'') (users ?rotated) = Some alice_rotated"
    "p_sessionId (j_payload (accessToken alice_tokens)) = Some ''session-1''"
    "a_sessionId alice = Some ''session-1''"
    "a_sessionId alice_rotated = Some ''session-2''"
    by (simp_all add: example_defs token_defs Let_def)
  note a = gate_outcomes [where authorization = "Some ''Basic access-1''"
      and header = "''Bearer garbage''" and cfg = example_cfg and dec = example_dec
      and castable = hex24 and now = 1100 and s = example_store]
  note b = gate_outcomes [where header = "''Bearer access-1''" and cfg = example_cfg
      and dec = example_dec and castable = hex24 and now = 2000 and s = example_store
      and j = "accessToken alice_tokens"]
  note c = gate_outcomes [where header = "''Bearer access-1''" and cfg = example_cfg
      and dec = example_dec and castable = hex24 and now = 1100
      and j = "accessToken alice_tokens"]
  note d = gate_outcomes [where header = "''Bearer odd-1''" and cfg = example_cfg
      and dec = example_dec and castable = hex24 and now = 1100 and s = example_store
      and j = odd_id_token]
  from a h1 h2 have one: "authenticateToken example_cfg example_dec hex24 1100 example_store
        (Some ''Basic access-1'') = Respond 401 ''UNAUTHORIZED'' ''Authentication token required''"
    and two: "authenticateToken example_cfg example_dec hex24 1100 example_store
        (Some ''Bearer garbage'') = Respond 401 ''INVALID_TOKEN'' ''Invalid authentication token''"
    by metis+
  from b h3 t have three: "authenticateToken example_cfg example_dec hex24 2000 example_store
        (Some ''Bearer access-1'') = Respond 401 ''TOKEN_EXPIRED'' ''Authentication token has expired''"
    by simp
  from d h3(4) h4 example_castable have cast: "authenticateToken example_cfg example_dec hex24
        1100 example_store (Some ''Bearer odd-1'') = NextError CastError"
    by simp
  from c [where s = ?empty] h3 t example_castable
  have four: "authenticateToken example_cfg example_dec hex24 1100
        ?empty (Some ''Bearer access-1'') = Respond 401 ''USER_NOT_FOUND'' ''User not found''"
    by simp
  from c [where s = ?rotated] h3 t example_castable
  have five: "authenticateToken example_cfg example_dec hex24 1100
        ?rotated (Some ''Bearer access-1'')
      = Respond 401 ''SESSION_INVALID'' ''Session has been invalidated''"
    by simp
  from c [where s = example_store] h3 t example_castable
  have six: "authenticateToken example_cfg example_dec hex24
        1100 example_store (Some ''Bearer access-1'') = Next (loaded User alice)"
    by simp
  from h1 h2(3) h3(3,5) h4(3,9) example_castable(2) t(4) one two three cast four five six
  show ?thesis by blast
qed

text \<open>The middleware verifies with no issuer or audience, so the email-verification token
  of a logged-out account passes it, although \<open>verifyAccessToken\<close> rejects that token.\<close>

lemma gate_accepts_verification_token:
  "verifyAccessToken example_cfg example_dec 1100 ''verify-1''
     = Inl (Error ''INVALID_ACCESS_TOKEN'')
   \<and> revokeSession hex24 example_hash 7 example_store ''507f1f77bcf86cd799439011'' ''user''
     = (True, \<lparr>users = [alice_logged_out], admins = []\<rparr>)
   \<and> authenticateToken example_cfg example_dec hex24 1100
        \<lparr>users = [alice_logged_out], admins = []\<rparr> (Some ''Bearer verify-1'')
     = Next (loaded User alice_logged_out)"
proof -
  have "verifyAccessToken example_cfg example_dec 1100 ''verify-1''
     = Inl (Error ''INVALID_ACCESS_TOKEN'')"
    by (simp add: verifyAccessToken_def try_catch_def example_defs token_defs Let_def)
  moreover
  have "revokeSession hex24 example_hash 7 example_store ''507f1f77bcf86cd799439011'' ''user''
     = (True, \<lparr>users = [alice_logged_out], admins = []\<rparr>)"
    by (simp add: revokeSession_def example_findById example_save)
  moreover
  have "authenticateToken example_cfg example_dec hex24 1100
        \<lparr>users = [alice_logged_out], admins = []\<rparr> (Some ''Bearer verify-1'')
     = Next (loaded User alice_logged_out)"
    by (simp add: authenticateToken_def startsWith_def gate_catch_def example_defs token_defs
        store_defs example_castable Let_def)
  ultimately show ?thesis by blast
qed

subsection \<open>Login\<close>

lemma generic_service_error:
  "handleServiceError (Error msg) ctx =
     (Error (ctx @ '': '' @ msg))
       \<lparr>e_code := JStr ''SERVICE_ERROR'', e_originalError := Some (''Error'', msg)\<rparr>"
  by (simp add: handleServiceError_def Error_def named_error_def)

lemma login_no_account:
  assumes "email \<noteq> []" "truthy password" "findByEmail s email = None"
  shows "authenticateUser compare hash cfg now today nonce s email password rememberMe
     = Inl (handleServiceError (Error ''Invalid email or password'') ''Authentication failed'')"
  using assms by (simp add: authenticateUser_def try_catch_def)

lemma login_wrong_password:
  assumes "email \<noteq> []" "truthy password" "findByEmail s email = Some user"
    "model_verifyPassword compare (JStr (a_passwordHash (d_fields user))) password = Inr False"
  shows "authenticateUser compare hash cfg now today nonce s email password rememberMe
     = Inl (handleServiceError (Error ''Invalid email or password'') ''Authentication failed'')"
  using assms by (simp add: authenticateUser_def try_catch_def)

lemma login_failure_reply:
  "login_catch (handleServiceError (Error ''Invalid email or password'') ''Authentication failed'')
     = Reply 401 (ErrorReply \<lparr>eb_code = JStr ''SERVICE_ERROR'',
         eb_message = ''Authentication failed: Invalid email or password'',
         eb_details = None\<rparr>)"
  unfolding generic_service_error
  by (simp add: login_catch_def formatServiceError_def Error_def named_error_def)

text \<open>
  Claim C6.  A login that fails because no account has the email and a login that fails
  because the password does not verify return the same error, whatever else differs
  between the two runs, and the login route turns it into the same response.
\<close>

theorem login_failures_indistinguishable:
  "email_a \<noteq> [] \<and> truthy password_a \<and> findByEmail s_a email_a = None
     \<and> email_b \<noteq> [] \<and> truthy password_b \<and> findByEmail s_b email_b = Some user
     \<and> model_verifyPassword compare_b (JStr (a_passwordHash (d_fields user))) password_b
         = Inr False
   \<longrightarrow> authenticateUser compare_a hash_a cfg_a now_a today_a nonce_a s_a email_a password_a
           remember_a
         = authenticateUser compare_b hash_b cfg_b now_b today_b nonce_b s_b email_b password_b
             remember_b
       \<and> authenticateUser compare_a hash_a cfg_a now_a today_a nonce_a s_a email_a password_a
           remember_a
         = Inl (handleServiceError (Error ''Invalid email or password'')
                  ''Authentication failed'')
       \<and> login_catch (handleServiceError (Error ''Invalid email or password'')
                         ''Authentication failed'')
         = Reply 401 (ErrorReply \<lparr>eb_code = JStr ''SERVICE_ERROR'',
             eb_message = ''Authentication failed: Invalid email or password'',
             eb_details = None\<rparr>)"
proof (intro impI)
  assume h: "email_a \<noteq> [] \<and> truthy password_a \<and> findByEmail s_a email_a = None
     \<and> email_b \<noteq> [] \<and> truthy password_b \<and> findByEmail s_b email_b = Some user
     \<and> model_verifyPassword compare_b (JStr (a_passwordHash (d_fields user))) password_b
         = Inr False"
  from h have a: "authenticateUser compare_a hash_a cfg_a now_a today_a nonce_a s_a email_a
        password_a remember_a
      = Inl (handleServiceError (Error ''Invalid email or password'') ''Authentication failed'')"
    by (intro login_no_account) blast+
  from h have b: "authenticateUser compare_b hash_b cfg_b now_b today_b nonce_b s_b email_b
        password_b remember_b
      = Inl (handleServiceError (Error ''Invalid email or password'') ''Authentication failed'')"
    by (intro login_wrong_password [where user = user]) blast+
  from a b login_failure_reply
  show "authenticateUser compare_a hash_a cfg_a now_a today_a nonce_a s_a email_a password_a
           remember_a
         = authenticateUser compare_b hash_b cfg_b now_b today_b nonce_b s_b email_b password_b
             remember_b
       \<and> authenticateUser compare_a hash_a cfg_a now_a today_a nonce_a s_a email_a password_a
           remember_a
         = Inl (handleServiceError (Error ''Invalid email or password'')
                  ''Authentication failed'')
       \<and> login_catch (handleServiceError (Error ''Invalid email or password'')
                         ''Authentication failed'')
         = Reply 401 (ErrorReply \<lparr>eb_code = JStr ''SERVICE_ERROR'',
             eb_message = ''Authentication failed: Invalid email or password'',
             eb_details = None\<rparr>)"
    by simp
qed

lemma example_findByEmail:
  "findByEmail example_store ''bob@example.com'' = None"
  "findByEmail example_store ''ghost@nowhere.test'' = None"
  "findByEmail example_store ''alice@example.com'' = Some (loaded User alice)"
  "findByEmail example_store '' Alice@Example.COM '' = Some (loaded User alice)"
  by code_simp+

theorem login_failures_indistinguishable_witness:
  "findByEmail example_store ''bob@example.com'' = None
   \<and> findByEmail example_store ''alice@example.com'' = Some (loaded User alice)
   \<and> model_verifyPassword wrong_password_compare
        (JStr (a_passwordHash (d_fields (loaded User alice)))) (JStr ''guess'') = Inr False
   \<and> authenticateUser wrong_password_compare example_hash example_cfg 1100 7 ''session-2''
        example_store ''bob@example.com'' (JStr ''guess'') False
     = authenticateUser wrong_password_compare example_hash example_cfg 1100 7 ''session-2''
        example_store ''alice@example.com'' (JStr ''guess'') False"
proof -
  have v: "model_verifyPassword wrong_password_compare
        (JStr (a_passwordHash (d_fields (loaded User alice)))) (JStr ''guess'') = Inr False"
    by (simp add: model_verifyPassword_def try_catch_def wrong_password_compare_def
        loaded_def alice_def)
  from login_failures_indistinguishable [where email_a = "''bob@example.com''"
      and password_a = "JStr ''guess''" and s_a = example_store
      and email_b = "''alice@example.com''" and password_b = "JStr ''guess''"
      and s_b = example_store and user = "loaded User alice"
      and compare_b = wrong_password_compare and compare_a = wrong_password_compare
      and hash_a = example_hash and hash_b = example_hash and cfg_a = example_cfg
      and cfg_b = example_cfg and now_a = 1100 and now_b = 1100
      and today_a = 7 and today_b = 7
      and nonce_a = "''session-2''" and nonce_b = "''session-2''"
      and remember_a = False and remember_b = False]
    example_findByEmail(1,3) v
  show ?thesis by simp
qed

subsection \<open>Password reset routes\<close>

lemma user_unbound: "resolve ''User'' = Inl (ReferenceError ''User'')"
  by (simp add: resolve_def routes_bindings_def)

text \<open>Every request whose email passes the validation ends in the error handler, and no
  request changes the store, the outbox or the console.\<close>

lemma forgot_password_forwards:
  "isEmail body_email \<Longrightarrow>
     forgot_password isEmail normalizeEmail body_email w = (Forward (ReferenceError ''User''), w)"
  by (simp add: forgot_password_def user_unbound)

lemma forgot_password_rejects:
  "\<not> isEmail body_email \<Longrightarrow>
     forgot_password isEmail normalizeEmail body_email w
       = (validation_error_reply [(''email'', ''Valid email address is required'')], w)"
  by (simp add: forgot_password_def)

lemma forgot_password_frame: "snd (forgot_password isEmail normalizeEmail body_email w) = w"
  by (cases "isEmail body_email") (simp_all add: forgot_password_forwards forgot_password_rejects)

lemma reset_password_frame: "snd (reset_password token newPassword w) = w"
  by (simp add: reset_password_def)

text \<open>
  Claim C5, evaluated at a failing input.  For the email of an existing account, as for
  the email of no account, the handler throws a \<open>ReferenceError\<close> before it responds:
  the name \<open>User\<close> is not bound in the module of the routes.  The error is handed to the
  error handler, so the request does not succeed, and nothing is handed to the email
  service.
\<close>

theorem forgot_password_never_succeeds:
  "findByEmail (w_store example_world) ''alice@example.com'' = Some (loaded User alice)
   \<and> findByEmail (w_store example_world) ''ghost@nowhere.test'' = None
   \<and> forgot_password (\<lambda>email. True) (\<lambda>email. email) ''alice@example.com'' example_world
     = (Forward (ReferenceError ''User''), example_world)
   \<and> forgot_password (\<lambda>email. True) (\<lambda>email. email) ''ghost@nowhere.test'' example_world
     = (Forward (ReferenceError ''User''), example_world)
   \<and> w_outbox example_world = []"
proof -
  have f: "findByEmail (w_store example_world) ''alice@example.com'' = Some (loaded User alice)"
    "findByEmail (w_store example_world) ''ghost@nowhere.test'' = None"
    by (simp_all add: example_world_def example_findByEmail)
  have r: "forgot_password (\<lambda>email. True) (\<lambda>email. email) ''alice@example.com'' example_world
     = (Forward (ReferenceError ''User''), example_world)"
    "forgot_password (\<lambda>email. True) (\<lambda>email. email) ''ghost@nowhere.test'' example_world
     = (Forward (ReferenceError ''User''), example_world)"
    by (simp_all add: forgot_password_def user_unbound)
  from f r show ?thesis by (simp add: example_world_def)
qed

text \<open>
  Claim C4, evaluated at a failing input.  The route accepts a token that reset-token
  verification rejects and a password that the strength validation rejects, answers
  with success, and leaves the store, and with it the stored password hash and session
  identifier, as they were.
\<close>

theorem reset_password_changes_nothing:
  "reset_validation ''garbage'' ''Password1'' = []
   \<and> verifyResetToken example_cfg example_dec 1100 ''garbage''
     = Inl (Error ''INVALID_RESET_TOKEN'')
   \<and> \<not> isValid (validatePasswordStrength (JStr ''Password1'') no_user_info)
   \<and> reset_password ''garbage'' ''Password1'' example_world
     = (Reply 200 (MessageReply ''Password reset successfully''), example_world)"
proof -
  have v: "reset_validation ''garbage'' ''Password1'' = []" by code_simp
  have t: "verifyResetToken example_cfg example_dec 1100 ''garbage''
     = Inl (Error ''INVALID_RESET_TOKEN'')"
    by (simp add: verifyResetToken_def try_catch_def example_defs token_defs)
  have p: "\<not> isValid (validatePasswordStrength (JStr ''Password1'') no_user_info)"
    by code_simp
  have r: "reset_password ''garbage'' ''Password1'' example_world
     = (Reply 200 (MessageReply ''Password reset successfully''), example_world)"
    by (simp add: reset_password_def v)
  from v t p r show ?thesis by blast
qed

end
